theory Spec2Isabelle
  imports Main "HOL-Library.Sublist"
begin

section \<open>JavaScript values the add-in computes with\<close>

text \<open>
  A JavaScript string is modelled as a \<open>string\<close> whose characters are the code units
  below 256 (ASCII and Latin-1); every literal of the source is ASCII. A JavaScript number
  is \<open>NaN\<close> or an integer: timestamps, lengths and column indices are integers, and on
  integers the comparison \<open>a - b > c\<close> of the source is exact (a difference too large for
  a double is far from the threshold on the same side).
\<close>

datatype number = NaN | Number int

fun num_sub :: "number \<Rightarrow> number \<Rightarrow> number" where
  "num_sub (Number a) (Number b) = Number (a - b)"
| "num_sub _ _ = NaN"

text \<open>\<open>a > b\<close> of JavaScript: false as soon as one side is \<open>NaN\<close>.\<close>

fun num_gt :: "number \<Rightarrow> number \<Rightarrow> bool" where
  "num_gt (Number a) (Number b) = (b < a)"
| "num_gt _ _ = False"

text \<open>White space as \<open>String.prototype.trim\<close> and \<open>parseInt\<close> strip it: tab, line feed,
  vertical tab, form feed, carriage return, space and the no-break space.\<close>

definition isWhiteSpace :: "char \<Rightarrow> bool" where
  "isWhiteSpace c = (of_char c \<in> {9, 10, 11, 12, 13, 32, 160 :: nat})"

definition trim :: "string \<Rightarrow> string" where
  "trim s = rev (dropWhile isWhiteSpace (rev (dropWhile isWhiteSpace s)))"

definition lowerChar :: "char \<Rightarrow> char" where
  "lowerChar c =
     (let n = (of_char c :: nat)
      in if (65 \<le> n \<and> n \<le> 90) \<or> (192 \<le> n \<and> n \<le> 214) \<or> (216 \<le> n \<and> n \<le> 222)
         then char_of (n + 32) else c)"

definition toLowerCase :: "string \<Rightarrow> string" where
  "toLowerCase s = map lowerChar s"

text \<open>
  \<open>toUpperCase\<close>: the sharp s becomes \<open>SS\<close>. The capitals of the micro sign and of the y
  with diaeresis are the code units 924 and 376, beyond the strings of the model: the
  result is then \<open>BeyondLatin1\<close>, a string that is the text of no cell.
\<close>

datatype uppercased = Latin1 string | BeyondLatin1

definition upperChar :: "char \<Rightarrow> string option" where
  "upperChar c =
     (let n = (of_char c :: nat)
      in if (97 \<le> n \<and> n \<le> 122) \<or> (224 \<le> n \<and> n \<le> 246) \<or> (248 \<le> n \<and> n \<le> 254)
         then Some [char_of (n - 32)]
         else if n = 223 then Some ''SS''
         else if n = 181 \<or> n = 255 then None
         else Some [c])"

definition toUpperCase :: "string \<Rightarrow> uppercased" where
  "toUpperCase s =
     (case those (map upperChar s) of
        None \<Rightarrow> BeyondLatin1
      | Some parts \<Rightarrow> Latin1 (concat parts))"

text \<open>\<open>xs.join(sep)\<close> and \<open>s.split(c)\<close> for a one-character separator.\<close>

fun join :: "string \<Rightarrow> string list \<Rightarrow> string" where
  "join sep [] = []"
| "join sep [x] = x"
| "join sep (x # y # ys) = x @ sep @ join sep (y # ys)"

fun split :: "char \<Rightarrow> string \<Rightarrow> string list" where
  "split c [] = [[]]"
| "split c (x # xs) =
     (if x = c then [] # split c xs
      else (case split c xs of [] \<Rightarrow> [[x]] | p # ps \<Rightarrow> (x # p) # ps))"

text \<open>\<open>Number.prototype.toString\<close> on an integer: its decimal digits below \<open>10^21\<close>, and
  from there on the exponent notation (\<open>1e+21\<close>, \<open>1.5e+21\<close>): the first digit, the
  digits of the integer after it up to the last one that is not zero, and the
  exponent.\<close>

definition digitChar :: "int \<Rightarrow> char" where
  "digitChar d = char_of (48 + d)"

function digitsOf :: "int \<Rightarrow> string" where
  "digitsOf n =
     (if n < 10 then [digitChar n] else digitsOf (n div 10) @ [digitChar (n mod 10)])"
  by pat_completeness auto
termination
  by (relation "measure nat") auto

declare digitsOf.simps [simp del]

definition exponential :: "string \<Rightarrow> string" where
  "exponential ds =
     (let fraction = rev (dropWhile (\<lambda>c. c = CHR ''0'') (rev (tl ds)))
      in hd ds # (if fraction = [] then [] else CHR ''.'' # fraction)
           @ ''e+'' @ digitsOf (int (length ds) - 1))"

definition magnitudeToString :: "int \<Rightarrow> string" where
  "magnitudeToString n =
     (if n < 1000000000000000000000 then digitsOf n else exponential (digitsOf n))"

definition intToString :: "int \<Rightarrow> string" where
  "intToString i =
     (if i < 0 then CHR ''-'' # magnitudeToString (- i) else magnitudeToString i)"

text \<open>
  \<open>parseInt(s)\<close> with no radix: leading white space is skipped, a sign is read, a prefix
  \<open>0x\<close> or \<open>0X\<close> selects base 16, and the longest run of digits is the value; with no
  digit the result is \<open>NaN\<close>. Whatever follows the digits is ignored.
\<close>

definition digitValue :: "char \<Rightarrow> int option" where
  "digitValue c =
     (let n = (of_char c :: int)
      in if 48 \<le> n \<and> n \<le> 57 then Some (n - 48)
         else if 97 \<le> n \<and> n \<le> 102 then Some (n - 87)
         else if 65 \<le> n \<and> n \<le> 70 then Some (n - 55)
         else None)"

definition isDigitIn :: "int \<Rightarrow> char \<Rightarrow> bool" where
  "isDigitIn radix c = (case digitValue c of None \<Rightarrow> False | Some d \<Rightarrow> d < radix)"

definition digitsValue :: "int \<Rightarrow> string \<Rightarrow> int" where
  "digitsValue radix ds = foldl (\<lambda>acc c. acc * radix + the (digitValue c)) 0 ds"

definition parseInt :: "string \<Rightarrow> number" where
  "parseInt s =
     (let s1 = dropWhile isWhiteSpace s;
          neg = (take 1 s1 = ''-'');
          s2 = (if take 1 s1 = ''+'' \<or> take 1 s1 = ''-'' then drop 1 s1 else s1);
          hex = (take 2 s2 = ''0x'' \<or> take 2 s2 = ''0X'');
          radix = (if hex then 16 else 10);
          s3 = (if hex then drop 2 s2 else s2);
          ds = takeWhile (isDigitIn radix) s3
      in if ds = [] then NaN
         else Number ((if neg then - 1 else 1) * digitsValue radix ds))"

text \<open>A value of JavaScript's dynamic type, as far as the code tells values apart: a
  parameter of a custom function or a field of a remote response.\<close>

datatype jsval =
    Undefined
  | Null
  | JBool bool
  | JNum int
  | JStr string
  | JArr "string list"
  | JObj

text \<open>The values \<open>!v\<close> is true for.\<close>

fun falsy :: "jsval \<Rightarrow> bool" where
  "falsy Undefined = True"
| "falsy Null = True"
| "falsy (JBool b) = (\<not> b)"
| "falsy (JNum n) = (n = 0)"
| "falsy (JStr s) = (s = [])"
| "falsy (JArr xs) = False"
| "falsy JObj = False"

section \<open>Errors\<close>

text \<open>
  What a \<open>catch\<close> receives. \<open>CustomFunctions.Error\<close> carries an error code and a message;
  every other value with properties (\<open>Error\<close>, \<open>TypeError\<close>, \<open>RangeError\<close>, the reason of a
  rejection of the host or of the remote service) is a plain error with its message, the
  empty string when it has none; \<open>ThrownNullish\<close> is \<open>undefined\<close> or \<open>null\<close>, the reason of
  a promise rejected with nothing, on which reading \<open>error.message\<close> itself throws.
\<close>

datatype errorCode = invalidValue | notAvailable

datatype error = CustomFunctionsError errorCode string | JsError string | ThrownNullish

type_synonym 'a result = "error + 'a"

text \<open>\<open>error?.message\<close>, empty when there is none; and the message of the \<open>TypeError\<close>
  for \<open>error.message\<close> on \<open>undefined\<close>, in the wording of V8.\<close>

fun errorMessage :: "error \<Rightarrow> string" where
  "errorMessage (CustomFunctionsError c m) = m"
| "errorMessage (JsError m) = m"
| "errorMessage ThrownNullish = []"

definition cannotReadMessage :: string where
  "cannotReadMessage = ''Cannot read properties of undefined (reading 'message')''"

section \<open>The host workbook, the remote service and the session\<close>

text \<open>
  The host is modelled as far as the code uses it. A batch (\<open>Excel.run\<close>) acts on the
  workbook at once and fails only where the state says so: \<open>getItem\<close> of a worksheet
  that does not exist, and the used range of a column that holds nothing. A failure of
  the host for any other reason, and a second invocation running between two steps of
  this one, are outside the model; so are cell formats, column widths and the console.

  A cell value is what \<open>Range.values\<close> reports: a string (the empty string for an empty
  cell), a number (an integer here) or a boolean. A worksheet is its name, its
  visibility and the grid of its cell values, row 0 and column 0 first; a cell beyond
  the stored rows is empty. A cell keeps the value written to it.
\<close>

datatype cell = CStr string | CNum int | CBool bool

fun cellToString :: "cell \<Rightarrow> string" where
  "cellToString (CStr s) = s"
| "cellToString (CNum n) = intToString n"
| "cellToString (CBool b) = (if b then ''true'' else ''false'')"

type_synonym grid = "cell list list"

definition cellAt :: "grid \<Rightarrow> nat \<Rightarrow> nat \<Rightarrow> cell" where
  "cellAt g r c = (if r < length g \<and> c < length (g ! r) then g ! r ! c else CStr [])"

definition nonEmpty :: "cell \<Rightarrow> bool" where
  "nonEmpty v = (v \<noteq> CStr [])"

definition setCell :: "nat \<Rightarrow> nat \<Rightarrow> cell \<Rightarrow> grid \<Rightarrow> grid" where
  "setCell r c v g =
     (let g1 = g @ replicate (Suc r - length g) [];
          row = g1 ! r;
          row1 = row @ replicate (Suc c - length row) (CStr [])
      in g1[r := row1[c := v]])"

text \<open>\<open>range.values = rows\<close> for the range whose top left cell is \<open>(r, c)\<close>; a
  \<open>null\<close> entry leaves its cell as it is.\<close>

fun writeRow :: "nat \<Rightarrow> nat \<Rightarrow> cell option list \<Rightarrow> grid \<Rightarrow> grid" where
  "writeRow r c [] g = g"
| "writeRow r c (v # vs) g =
     writeRow r (Suc c) vs (case v of None \<Rightarrow> g | Some x \<Rightarrow> setCell r c x g)"

fun writeRange :: "nat \<Rightarrow> nat \<Rightarrow> cell option list list \<Rightarrow> grid \<Rightarrow> grid" where
  "writeRange r c [] g = g"
| "writeRange r c (row # rows) g = writeRange (Suc r) c rows (writeRow r c row g)"

text \<open>\<open>sheet.getUsedRange().values\<close>: the values of the smallest rectangle that holds
  every non-empty cell, and of the top left cell alone when the sheet is blank.\<close>

definition usedRows :: "grid \<Rightarrow> nat list" where
  "usedRows g = filter (\<lambda>r. list_ex nonEmpty (g ! r)) [0..<length g]"

definition usedCols :: "grid \<Rightarrow> nat list" where
  "usedCols g =
     filter (\<lambda>c. list_ex (\<lambda>r. nonEmpty (cellAt g r c)) [0..<length g])
       [0..<foldr max (map length g) 0]"

definition usedRangeValues :: "grid \<Rightarrow> grid" where
  "usedRangeValues g =
     (if usedRows g = [] then [[CStr []]]
      else map (\<lambda>r. map (\<lambda>c. cellAt g r c) [hd (usedCols g)..<Suc (last (usedCols g))])
             [hd (usedRows g)..<Suc (last (usedRows g))])"

text \<open>The rows of one column that hold a value: \<open>column.getUsedRange()\<close> spans from the
  first to the last of them.\<close>

definition columnUsedRows :: "grid \<Rightarrow> nat \<Rightarrow> nat list" where
  "columnUsedRows g c = filter (\<lambda>r. nonEmpty (cellAt g r c)) [0..<length g]"

record sheet =
  sheetName :: string
  hidden :: bool
  cells :: grid

text \<open>The classes of the SDK, one per remote endpoint family.\<close>

datatype apiClass =
    Location
  | Mobile
  | Fugitive
  | Stationary
  | Calculation
  | TransportationAndDistribution
  | Factor

text \<open>
  What a handler does to the outside, in order: a run of a population routine on a
  dataset, a request to the remote service, a list validation rule set on a cell (sheet,
  cell reference, comma separated source, alert title and message).
\<close>

datatype event =
    Populate string
  | GetTypes apiClass
  | GetArea apiClass
  | GetUnits apiClass string
  | ListValidation string string string string string

text \<open>The state a call runs in: the worksheets of the workbook (\<open>worksheets.items\<close>),
  the name of the active sheet, whether the SDK client singleton exists, and the events
  so far.\<close>

record world =
  sheets :: "sheet list"
  activeSheet :: string
  clientInstance :: bool
  trace :: "event list"

text \<open>A promise of the SDK settles as a rejection, with the reason that \<open>await\<close> throws, or
  as a value.\<close>

datatype 'a promise = Rejected error | Resolved 'a

text \<open>A response is \<open>null\<close> or \<open>undefined\<close>, or it has the field the caller reads
  (\<open>types\<close>, \<open>units\<close> or \<open>locations\<close>) with some value, \<open>Undefined\<close> when the field is
  missing.\<close>

datatype 'f response = Nullish | Response 'f

record LocationData =
  alpha3 :: string
  countryName :: "string option"
  stateProvinces :: "string list option"
  powerGrids :: "string list option"

text \<open>The field \<open>locations\<close> of an area response: falsy (missing, \<open>null\<close>), some other
  value that is not an array, or an array of locations.\<close>

datatype locationsField =
    LocationsFalsy
  | LocationsNotArray
  | Locations "LocationData list"

text \<open>\<open>getArea\<close> resolves to a string, for which \<open>JSON.parse\<close> throws (\<open>None\<close>) or
  yields a response, or to a response object.\<close>

datatype areaRaw =
    RawString "locationsField response option"
  | RawObject "locationsField response"

text \<open>What a call cannot change: the clock, whether credentials are stored, and what the
  remote service answers.\<close>

record env =
  now :: int
  credentials :: bool
  getTypes :: "apiClass \<Rightarrow> jsval response promise"
  getArea :: "apiClass \<Rightarrow> areaRaw promise"
  getUnits :: "apiClass \<Rightarrow> string \<Rightarrow> jsval response promise"

text \<open>An asynchronous function is an action on the world that returns a value or throws;
  \<open>await\<close> in sequence is \<open>bindA\<close>, \<open>try\<close>/\<open>catch\<close> is \<open>catchA\<close>.\<close>

type_synonym 'a action = "world \<Rightarrow> 'a result \<times> world"

definition returnA :: "'a \<Rightarrow> 'a action" where
  "returnA x w = (Inr x, w)"

definition throwA :: "error \<Rightarrow> 'a action" where
  "throwA e w = (Inl e, w)"

definition bindA :: "'a action \<Rightarrow> ('a \<Rightarrow> 'b action) \<Rightarrow> 'b action" where
  "bindA m f w = (case m w of (Inl e, w1) \<Rightarrow> (Inl e, w1) | (Inr x, w1) \<Rightarrow> f x w1)"

definition catchA :: "'a action \<Rightarrow> (error \<Rightarrow> 'a action) \<Rightarrow> 'a action" where
  "catchA m h w = (case m w of (Inl e, w1) \<Rightarrow> h e w1 | (Inr x, w1) \<Rightarrow> (Inr x, w1))"

definition emit :: "event \<Rightarrow> unit action" where
  "emit ev w = (Inr (), w\<lparr>trace := trace w @ [ev]\<rparr>)"

text \<open>\<open>worksheets.items.find((s) => s.name === sheetName)\<close>, and the error of the host
  for a worksheet that does not exist.\<close>

definition findSheet :: "string \<Rightarrow> sheet list \<Rightarrow> sheet option" where
  "findSheet n ss = find (\<lambda>s. sheetName s = n) ss"

definition itemNotFound :: error where
  "itemNotFound = JsError ''ItemNotFound''"

fun deleteSheet :: "string \<Rightarrow> sheet list \<Rightarrow> sheet list" where
  "deleteSheet n [] = []"
| "deleteSheet n (s # ss) = (if sheetName s = n then ss else s # deleteSheet n ss)"

fun updateSheet :: "string \<Rightarrow> (sheet \<Rightarrow> sheet) \<Rightarrow> sheet list \<Rightarrow> sheet list" where
  "updateSheet n f [] = []"
| "updateSheet n f (s # ss) = (if sheetName s = n then f s # ss else s # updateSheet n f ss)"

text \<open>\<open>ensureClient()\<close> with no argument: nothing to do when the client singleton
  exists; otherwise the stored credentials build it, and without credentials the call
  throws.\<close>

definition ensureClient :: "env \<Rightarrow> unit action" where
  "ensureClient e w =
     (if clientInstance w then (Inr (), w)
      else if credentials e then (Inr (), w\<lparr>clientInstance := True\<rparr>)
      else (Inl (CustomFunctionsError notAvailable ''Enter your credentials in the task pane.''), w))"

section \<open>Shared metadata utilities\<close>

text \<open>
  The tables \<open>API_AREA_MAPPING\<close>, \<open>API_COLUMN_MAP\<close> and \<open>API_CLASS_MAP\<close> are plain
  objects, modelled by their own keys. The handlers read them with the name that
  \<open>validateApiName\<close> returned, one of \<open>VALID_API_NAMES\<close>; a name that every object inherits
  (\<open>constructor\<close>, \<open>toString\<close>, ...) does not pass that check, and a table read with
  such a name is outside the model.
\<close>

definition VALID_API_NAMES :: "string list" where
  "VALID_API_NAMES =
     [''location'', ''mobile'', ''fugitive'', ''stationary'', ''calculation'',
      ''transportationanddistribution'', ''factor'']"

definition API_TYPES_CONFIGS :: "(string \<times> apiClass) list" where
  "API_TYPES_CONFIGS =
     [(''Location'', Location), (''Mobile'', Mobile), (''Fugitive'', Fugitive),
      (''Stationary'', Stationary), (''Calculation'', Calculation),
      (''TransportationAndDistribution'', TransportationAndDistribution)]"

definition API_AREA_CONFIGS :: "(string \<times> apiClass) list" where
  "API_AREA_CONFIGS = [(''calculation'', Calculation), (''mobile'', Mobile)]"

definition API_AREA_MAPPING :: "(string \<times> string) list" where
  "API_AREA_MAPPING =
     [(''calculation'', ''calculation''), (''location'', ''calculation''),
      (''factor'', ''calculation''), (''mobile'', ''mobile''), (''stationary'', ''mobile''),
      (''fugitive'', ''mobile''), (''transportationanddistribution'', ''mobile'')]"

definition REFRESH_INTERVAL_MS :: int where
  "REFRESH_INTERVAL_MS = 2 * 24 * 60 * 60 * 1000"

record SheetMetadata =
  timestamp :: number

text \<open>\<open>getSheetMetadata\<close>: \<open>None\<close> is the \<open>null\<close> of the source, returned when the sheet
  cannot be read (the error is caught) and when the first cell is not the marker.\<close>

definition getSheetMetadata :: "world \<Rightarrow> string \<Rightarrow> SheetMetadata option" where
  "getSheetMetadata w n =
     (case findSheet n (sheets w) of
        None \<Rightarrow> None
      | Some sh \<Rightarrow>
          (let values = [cellAt (cells sh) 0 0, cellAt (cells sh) 0 1]
           in if values ! 0 \<noteq> CStr ''METADATA'' then None
              else Some \<lparr>timestamp = parseInt (cellToString (values ! 1))\<rparr>))"

definition setSheetMetadata :: "string \<Rightarrow> SheetMetadata \<Rightarrow> unit action" where
  "setSheetMetadata n metadata w =
     (case findSheet n (sheets w) of
        None \<Rightarrow> (Inl itemNotFound, w)
      | Some sh \<Rightarrow>
          (Inr (),
           w\<lparr>sheets :=
               updateSheet n
                 (\<lambda>s. s\<lparr>cells :=
                          writeRange 0 0
                            [[Some (CStr ''METADATA''),
                              Some (CStr (case timestamp metadata of
                                            NaN \<Rightarrow> ''NaN''
                                          | Number t \<Rightarrow> intToString t))]]
                            (cells s)\<rparr>)
                 (sheets w)\<rparr>))"

definition isSheetDataStale :: "env \<Rightarrow> world \<Rightarrow> string \<Rightarrow> bool" where
  "isSheetDataStale e w n =
     (case getSheetMetadata w n of
        None \<Rightarrow> True
      | Some metadata \<Rightarrow>
          (let age = num_sub (Number (now e)) (timestamp metadata)
           in num_gt age (Number REFRESH_INTERVAL_MS)))"

definition deleteSheetIfExists :: "string \<Rightarrow> unit action" where
  "deleteSheetIfExists n w =
     (case findSheet n (sheets w) of
        None \<Rightarrow> (Inr (), w)
      | Some sh \<Rightarrow> (Inr (), w\<lparr>sheets := deleteSheet n (sheets w)\<rparr>))"

definition sheetExists :: "world \<Rightarrow> string \<Rightarrow> bool" where
  "sheetExists w n = (findSheet n (sheets w) \<noteq> None)"

definition refreshSheetIfStale :: "env \<Rightarrow> string \<Rightarrow> unit action \<Rightarrow> bool action" where
  "refreshSheetIfStale e n recreateFunction w =
     (if \<not> sheetExists w n then (Inr False, w)
      else if isSheetDataStale e w n
      then bindA (deleteSheetIfExists n)
             (\<lambda>_. bindA recreateFunction (\<lambda>_. returnA True)) w
      else (Inr False, w))"

text \<open>\<open>validateApiName\<close>: the normalised name, or the error it throws.\<close>

definition validateApiName :: "string \<Rightarrow> string result" where
  "validateApiName apiName =
     (let normalizedApiName = trim (toLowerCase apiName)
      in if normalizedApiName \<notin> set VALID_API_NAMES
         then Inl (CustomFunctionsError invalidValue
                     (''Invalid API name. Valid options: '' @ join '', '' VALID_API_NAMES))
         else Inr normalizedApiName)"

text \<open>\<open>getTargetCell\<close>: the sheet and the cell reference an address names; a sheet that
  does not exist fails the batch the cell is used in.\<close>

definition getTargetCell :: "world \<Rightarrow> string \<Rightarrow> (string \<times> string) result" where
  "getTargetCell w cellAddress =
     (let parts = (if CHR ''!'' \<in> set cellAddress then split (CHR ''!'') cellAddress
                   else [[], cellAddress]);
          targetSheetName = parts ! 0;
          cellRef = parts ! 1
      in if targetSheetName \<noteq> []
         then (if sheetExists w targetSheetName then Inr (targetSheetName, cellRef)
               else Inl itemNotFound)
         else Inr (activeSheet w, cellRef))"

text \<open>\<open>applyListValidation\<close> and the \<open>context.sync()\<close> after it: the rule reaches the
  host as one event.\<close>

definition applyListValidation ::
  "string \<times> string \<Rightarrow> string list \<Rightarrow> string \<Rightarrow> string \<Rightarrow> unit action" where
  "applyListValidation targetCell values title message =
     emit (ListValidation (fst targetCell) (snd targetCell) (join '','' values) title message)"

definition handleCustomFunctionError :: "error \<Rightarrow> string \<Rightarrow> 'a action" where
  "handleCustomFunctionError err defaultMessage =
     (case err of
        CustomFunctionsError c m \<Rightarrow> throwA err
      | JsError m \<Rightarrow>
          throwA (CustomFunctionsError notAvailable
                    (defaultMessage @ '': '' @ (if m = [] then ''Unknown error'' else m)))
      | ThrownNullish \<Rightarrow>
          throwA (CustomFunctionsError notAvailable (defaultMessage @ '': Unknown error'')))"

section \<open>Population of the types dataset\<close>

definition API_COLUMN_MAP :: "(string \<times> nat) list" where
  "API_COLUMN_MAP =
     [(''location'', 0), (''mobile'', 1), (''fugitive'', 2), (''stationary'', 3),
      (''calculation'', 4), (''transportationanddistribution'', 5), (''factor'', 4)]"

definition API_TYPES_SHEET_NAME :: string where
  "API_TYPES_SHEET_NAME = ''API_Types_Data''"

text \<open>\<open>Map.prototype.set\<close> on a map kept in insertion order.\<close>

fun mapSet :: "'k \<Rightarrow> 'v \<Rightarrow> ('k \<times> 'v) list \<Rightarrow> ('k \<times> 'v) list" where
  "mapSet k v [] = [(k, v)]"
| "mapSet k v (p # m) = (if fst p = k then (k, v) # m else p # mapSet k v m)"

text \<open>The body of one request of \<open>fetchAllApiTypes\<close>: \<open>response?.types || []\<close>, and the
  empty array when the request is rejected.\<close>

definition fetchTypesOf :: "env \<Rightarrow> string \<times> apiClass \<Rightarrow> string \<times> jsval" where
  "fetchTypesOf e config =
     (case getTypes e (snd config) of
        Rejected m \<Rightarrow> (fst config, JArr [])
      | Resolved response \<Rightarrow>
          (let types = (case response of Nullish \<Rightarrow> Undefined | Response t \<Rightarrow> t)
           in (fst config, if falsy types then JArr [] else types)))"

definition fetchAllApiTypes :: "env \<Rightarrow> (string \<times> jsval) list action" where
  "fetchAllApiTypes e =
     bindA (ensureClient e)
       (\<lambda>_ w.
          (let results = map (fetchTypesOf e) API_TYPES_CONFIGS
           in (Inr (fold (\<lambda>result m. mapSet (fst result) (snd result) m) results []),
               w\<lparr>trace := trace w @ map (\<lambda>config. GetTypes (snd config)) API_TYPES_CONFIGS\<rparr>)))"

text \<open>\<open>types.length\<close> and \<open>Math.max\<close>: a value with no length gives \<open>undefined\<close>, which
  \<open>Math.max\<close> turns into \<open>NaN\<close>.\<close>

fun typesLength :: "jsval \<Rightarrow> number" where
  "typesLength (JArr xs) = Number (int (length xs))"
| "typesLength (JStr s) = Number (int (length s))"
| "typesLength _ = NaN"

fun num_max :: "number \<Rightarrow> number \<Rightarrow> number" where
  "num_max (Number a) (Number b) = Number (max a b)"
| "num_max _ _ = NaN"

definition setData ::
  "nat \<Rightarrow> nat \<Rightarrow> cell option \<Rightarrow> cell option list list \<Rightarrow> cell option list list" where
  "setData r c v data = data[r := (data ! r)[c := v]]"

text \<open>One round of \<open>API_TYPES_CONFIGS.forEach\<close> in \<open>writeApiTypesToSheet\<close>: the header,
  then \<open>types.forEach\<close>, which only an array has.\<close>

definition fillColumn ::
  "(string \<times> jsval) list \<Rightarrow> (string \<times> apiClass) \<times> nat \<Rightarrow>
     cell option list list result \<Rightarrow> cell option list list result" where
  "fillColumn apiTypesMap configAt acc =
     (case acc of
        Inl err \<Rightarrow> Inl err
      | Inr data \<Rightarrow>
          (let config = fst configAt;
               columnIndex = snd configAt;
               types = (case map_of apiTypesMap (fst config) of
                          None \<Rightarrow> JArr []
                        | Some t \<Rightarrow> if falsy t then JArr [] else t);
               data1 = setData 1 columnIndex (Some (CStr (fst config))) data
           in case types of
                JArr xs \<Rightarrow>
                  Inr (fold (\<lambda>typeAt d. setData (snd typeAt + 2) columnIndex
                                          (Some (CStr (fst typeAt))) d)
                         (zip xs [0..<length xs]) data1)
              | _ \<Rightarrow> Inl (JsError ''types.forEach is not a function'')))"

definition getOrCreateApiTypesSheet :: "world \<Rightarrow> world" where
  "getOrCreateApiTypesSheet w =
     (case findSheet API_TYPES_SHEET_NAME (sheets w) of
        None \<Rightarrow>
          w\<lparr>sheets := sheets w @
                [\<lparr>sheetName = API_TYPES_SHEET_NAME, hidden = True, cells = []\<rparr>]\<rparr>
      | Some sh \<Rightarrow> w)"

text \<open>
  \<open>writeApiTypesToSheet\<close>. Everything up to the one \<open>context.sync()\<close> is queued, so an
  exception before it leaves the workbook as it was. After it the sheet exists, holds
  nothing but rows 1 and below of \<open>data\<close>, and then receives its metadata row.
\<close>

definition writeApiTypesToSheet :: "env \<Rightarrow> (string \<times> jsval) list \<Rightarrow> unit action" where
  "writeApiTypesToSheet e apiTypesMap w =
     (let maxTypes = fold (\<lambda>types m. num_max m (typesLength types)) (map snd apiTypesMap)
                       (Number 0);
          columnCount = length API_TYPES_CONFIGS
      in case maxTypes of
           NaN \<Rightarrow> (Inl (JsError ''Invalid array length''), w)
         | Number m \<Rightarrow>
             (let rowCount = nat m + 2;
                  data = replicate rowCount (replicate columnCount None)
              in case fold (fillColumn apiTypesMap)
                        (zip API_TYPES_CONFIGS [0..<columnCount]) (Inr data) of
                   Inl err \<Rightarrow> (Inl err, w)
                 | Inr filled \<Rightarrow>
                     (let w1 = getOrCreateApiTypesSheet w;
                          w2 = w1\<lparr>sheets :=
                                    updateSheet API_TYPES_SHEET_NAME
                                      (\<lambda>s. s\<lparr>cells := writeRange 1 0 (drop 1 filled) []\<rparr>)
                                      (sheets w1)\<rparr>
                      in setSheetMetadata API_TYPES_SHEET_NAME
                           \<lparr>timestamp = Number (now e)\<rparr> w2)))"

definition loadAndPopulateApiTypes :: "env \<Rightarrow> unit action" where
  "loadAndPopulateApiTypes e =
     bindA (emit (Populate API_TYPES_SHEET_NAME))
       (\<lambda>_. bindA (fetchAllApiTypes e) (\<lambda>apiTypesMap. writeApiTypesToSheet e apiTypesMap))"

section \<open>Population of the area dataset\<close>

definition AREA_DATA_SHEET_NAME :: string where
  "AREA_DATA_SHEET_NAME = ''API_Area_Data''"

text \<open>\<open>AREA_COLUMN_MAP\<close>, one constant per key.\<close>

definition AREA_COLUMN_apiName :: nat where "AREA_COLUMN_apiName = 0"
definition AREA_COLUMN_alpha3 :: nat where "AREA_COLUMN_alpha3 = 1"
definition AREA_COLUMN_countryName :: nat where "AREA_COLUMN_countryName = 2"
definition AREA_COLUMN_stateProvince :: nat where "AREA_COLUMN_stateProvince = 3"
definition AREA_COLUMN_powerGrid :: nat where "AREA_COLUMN_powerGrid = 4"

text \<open>The body of one request of \<open>fetchAllAreaData\<close>: a rejection, a string that does not
  parse, and a response whose \<open>locations\<close> is missing or not an array all give no
  locations.\<close>

definition fetchAreaOf :: "env \<Rightarrow> string \<times> apiClass \<Rightarrow> string \<times> LocationData list" where
  "fetchAreaOf e config =
     (case getArea e (snd config) of
        Rejected m \<Rightarrow> (fst config, [])
      | Resolved rawResponse \<Rightarrow>
          (case (case rawResponse of RawString parsed \<Rightarrow> parsed | RawObject r \<Rightarrow> Some r) of
             None \<Rightarrow> (fst config, [])
           | Some response \<Rightarrow>
               (case response of
                  Nullish \<Rightarrow> (fst config, [])
                | Response LocationsFalsy \<Rightarrow> (fst config, [])
                | Response LocationsNotArray \<Rightarrow> (fst config, [])
                | Response (Locations ls) \<Rightarrow> (fst config, ls))))"

definition fetchAllAreaData :: "env \<Rightarrow> (string \<times> LocationData list) list action" where
  "fetchAllAreaData e w =
     (let results = map (fetchAreaOf e) API_AREA_CONFIGS
      in (Inr (fold (\<lambda>result m. mapSet (fst result) (snd result) m) results []),
          w\<lparr>trace := trace w @ map (\<lambda>config. GetArea (snd config)) API_AREA_CONFIGS\<rparr>))"

definition areaRow :: "string \<Rightarrow> LocationData \<Rightarrow> cell option list" where
  "areaRow apiName location =
     (let stateProvincesJoined =
            (case stateProvinces location of None \<Rightarrow> [] | Some xs \<Rightarrow> join '', '' xs);
          powerGridsJoined =
            (case powerGrids location of None \<Rightarrow> [] | Some xs \<Rightarrow> join '', '' xs)
      in [Some (CStr apiName),
          Some (CStr (alpha3 location)),
          Some (CStr (case countryName location of None \<Rightarrow> [] | Some n \<Rightarrow> n)),
          Some (CStr stateProvincesJoined),
          Some (CStr powerGridsJoined)])"

definition areaHeader :: "cell option list" where
  "areaHeader =
     map (\<lambda>h. Some (CStr h))
       [''API Name'', ''Alpha3'', ''Country Name'', ''State/Province'', ''Power Grid'']"

text \<open>\<open>writeAreaDataToSheet\<close>: an existing sheet is deleted, a hidden one is added, the
  header and one row per location go to row 1 and below, and the metadata row is set
  last.\<close>

definition writeAreaDataToSheet ::
  "env \<Rightarrow> (string \<times> LocationData list) list \<Rightarrow> unit action" where
  "writeAreaDataToSheet e areaDataMap w =
     (let kept = (case findSheet AREA_DATA_SHEET_NAME (sheets w) of
                    None \<Rightarrow> sheets w
                  | Some sh \<Rightarrow> deleteSheet AREA_DATA_SHEET_NAME (sheets w));
          rows = areaHeader #
                 concat (map (\<lambda>entry. map (areaRow (fst entry)) (snd entry)) areaDataMap);
          w1 = w\<lparr>sheets := kept @
                      [\<lparr>sheetName = AREA_DATA_SHEET_NAME, hidden = True,
                        cells = writeRange 1 0 rows []\<rparr>]\<rparr>
      in setSheetMetadata AREA_DATA_SHEET_NAME \<lparr>timestamp = Number (now e)\<rparr> w1)"

definition loadAndPopulateAreaData :: "env \<Rightarrow> unit action" where
  "loadAndPopulateAreaData e =
     bindA (emit (Populate AREA_DATA_SHEET_NAME))
       (\<lambda>_. bindA (fetchAllAreaData e) (\<lambda>areaDataMap. writeAreaDataToSheet e areaDataMap))"

section \<open>Area lookups\<close>

definition liftR :: "'a result \<Rightarrow> 'a action" where
  "liftR r w = (r, w)"

definition typeofString :: "jsval \<Rightarrow> bool" where
  "typeofString v = (case v of JStr s \<Rightarrow> True | _ \<Rightarrow> False)"

definition asString :: "jsval \<Rightarrow> string" where
  "asString v = (case v of JStr s \<Rightarrow> s | _ \<Rightarrow> [])"

definition areaDataSheetExists :: "world \<Rightarrow> bool" where
  "areaDataSheetExists w = (findSheet AREA_DATA_SHEET_NAME (sheets w) \<noteq> None)"

definition ensureAreaDataSheet :: "env \<Rightarrow> unit action" where
  "ensureAreaDataSheet e w =
     (if \<not> areaDataSheetExists w then loadAndPopulateAreaData e w else (Inr (), w))"

text \<open>\<open>API_AREA_MAPPING[apiName] || apiName\<close>.\<close>

definition mapApiNameForAreaData :: "string \<Rightarrow> string" where
  "mapApiNameForAreaData apiName =
     (case map_of API_AREA_MAPPING apiName of
        None \<Rightarrow> apiName
      | Some g \<Rightarrow> if g = [] then apiName else g)"

text \<open>\<open>row[i]?.toString()\<close>: \<open>None\<close> is \<open>undefined\<close>, for a row with no column \<open>i\<close>.\<close>

definition rowText :: "cell list \<Rightarrow> nat \<Rightarrow> string option" where
  "rowText row i = (if i < length row then Some (cellToString (row ! i)) else None)"

text \<open>The loop of \<open>getAlpha3CodesForApi\<close> over the rows after the first, with the array
  it pushes to.\<close>

fun alpha3Loop :: "string \<Rightarrow> grid \<Rightarrow> string list \<Rightarrow> string list" where
  "alpha3Loop queryApiName [] alpha3Codes = alpha3Codes"
| "alpha3Loop queryApiName (row # rows) alpha3Codes =
     (let rowApiName = map_option toLowerCase (rowText row AREA_COLUMN_apiName);
          alpha3 = rowText row AREA_COLUMN_alpha3
      in alpha3Loop queryApiName rows
           (if rowApiName = Some queryApiName \<and> alpha3 \<noteq> None \<and> alpha3 \<noteq> Some []
            then alpha3Codes @ [the alpha3] else alpha3Codes))"

definition alpha3CodesIn :: "grid \<Rightarrow> string \<Rightarrow> string list" where
  "alpha3CodesIn values apiName = alpha3Loop (mapApiNameForAreaData apiName) (drop 1 values) []"

definition getAlpha3CodesForApi :: "string \<Rightarrow> string list action" where
  "getAlpha3CodesForApi apiName w =
     (case findSheet AREA_DATA_SHEET_NAME (sheets w) of
        None \<Rightarrow> (Inl itemNotFound, w)
      | Some sh \<Rightarrow> (Inr (alpha3CodesIn (usedRangeValues (cells sh)) apiName), w))"

text \<open>The loop of \<open>getAreaDataForCountry\<close>: the first row of the group and country
  decides. The country code \<open>a\<close> is the upper-cased parameter; \<open>rowAlpha3 === alpha3\<close>
  holds when the cell has a text and the code is that text.\<close>

fun areaDataLoop :: "string \<Rightarrow> uppercased \<Rightarrow> nat \<Rightarrow> grid \<Rightarrow> string list" where
  "areaDataLoop queryApiName a columnIndex [] = []"
| "areaDataLoop queryApiName a columnIndex (row # rows) =
     (let rowApiName = map_option toLowerCase (rowText row AREA_COLUMN_apiName);
          rowAlpha3 = rowText row AREA_COLUMN_alpha3
      in if rowApiName = Some queryApiName \<and> map_option Latin1 rowAlpha3 = Some a
         then (let dataString = (case rowText row columnIndex of None \<Rightarrow> [] | Some d \<Rightarrow> d)
               in if dataString \<noteq> []
                  then filter (\<lambda>item. item \<noteq> []) (map trim (split (CHR '','') dataString))
                  else [])
         else areaDataLoop queryApiName a columnIndex rows)"

definition areaDataIn :: "grid \<Rightarrow> string \<Rightarrow> uppercased \<Rightarrow> nat \<Rightarrow> string list" where
  "areaDataIn values apiName a columnIndex =
     areaDataLoop (mapApiNameForAreaData apiName) a columnIndex (drop 1 values)"

definition getAreaDataForCountry ::
  "string \<Rightarrow> uppercased \<Rightarrow> nat \<Rightarrow> string list action" where
  "getAreaDataForCountry apiName a columnIndex w =
     (case findSheet AREA_DATA_SHEET_NAME (sheets w) of
        None \<Rightarrow> (Inl itemNotFound, w)
      | Some sh \<Rightarrow> (Inr (areaDataIn (usedRangeValues (cells sh)) apiName a columnIndex), w))"

text \<open>The batch every handler ends with: the target cell, the rule, \<open>context.sync()\<close>.\<close>

definition setListValidation ::
  "string \<Rightarrow> string list \<Rightarrow> string \<Rightarrow> string \<Rightarrow> unit action" where
  "setListValidation address values title message w =
     (case getTargetCell w address of
        Inl err \<Rightarrow> (Inl err, w)
      | Inr targetCell \<Rightarrow> applyListValidation targetCell values title message w)"

definition handleCountryFunction :: "env \<Rightarrow> string \<Rightarrow> string \<Rightarrow> string action" where
  "handleCountryFunction e apiName address =
     catchA
       (bindA (ensureClient e) (\<lambda>_.
        bindA (liftR (validateApiName apiName)) (\<lambda>normalizedApiName.
        bindA (refreshSheetIfStale e AREA_DATA_SHEET_NAME (loadAndPopulateAreaData e)) (\<lambda>_.
        bindA (ensureAreaDataSheet e) (\<lambda>_.
        bindA (getAlpha3CodesForApi normalizedApiName) (\<lambda>alpha3Codes.
          if alpha3Codes = []
          then throwA (JsError (''No countries found for API: '' @ apiName))
          else bindA (setListValidation address alpha3Codes ''Invalid Country''
                        ''Please select a valid country code from the dropdown list'')
                 (\<lambda>_. returnA [])))))))
       (\<lambda>err. handleCustomFunctionError err ''Failed to set up country validation'')"

definition handleStateProvinceFunction ::
  "env \<Rightarrow> string \<Rightarrow> jsval \<Rightarrow> string \<Rightarrow> string action" where
  "handleStateProvinceFunction e apiName country address =
     catchA
       (if falsy country \<or> \<not> typeofString country \<or> trim (asString country) = []
        then throwA (CustomFunctionsError invalidValue
                       ''Country parameter is required and must be a non-empty string'')
        else
        bindA (ensureClient e) (\<lambda>_.
        bindA (liftR (validateApiName apiName)) (\<lambda>normalizedApiName.
        bindA (refreshSheetIfStale e AREA_DATA_SHEET_NAME (loadAndPopulateAreaData e)) (\<lambda>_.
        bindA (ensureAreaDataSheet e) (\<lambda>_.
        bindA (getAreaDataForCountry normalizedApiName
                 (toUpperCase (trim (asString country))) AREA_COLUMN_stateProvince)
          (\<lambda>stateProvinces.
          if stateProvinces = []
          then throwA (CustomFunctionsError notAvailable
                         (''No stateProvince data available for '' @ asString country))
          else bindA (setListValidation address stateProvinces ''Invalid State/Province''
                        ''Please select a valid state/province from the dropdown list'')
                 (\<lambda>_. returnA [])))))))
       (\<lambda>err. handleCustomFunctionError err ''Failed to set up state/province validation'')"

definition handlePowerGridFunction ::
  "env \<Rightarrow> string \<Rightarrow> jsval \<Rightarrow> string \<Rightarrow> string action" where
  "handlePowerGridFunction e apiName country address =
     catchA
       (if falsy country \<or> \<not> typeofString country \<or> trim (asString country) = []
        then throwA (CustomFunctionsError invalidValue
                       ''Country parameter is required and must be a non-empty string'')
        else
        bindA (ensureClient e) (\<lambda>_.
        bindA (liftR (validateApiName apiName)) (\<lambda>normalizedApiName.
        bindA (refreshSheetIfStale e AREA_DATA_SHEET_NAME (loadAndPopulateAreaData e)) (\<lambda>_.
        bindA (ensureAreaDataSheet e) (\<lambda>_.
        bindA (getAreaDataForCountry normalizedApiName
                 (toUpperCase (trim (asString country))) AREA_COLUMN_powerGrid)
          (\<lambda>powerGrids.
          if powerGrids = []
          then throwA (CustomFunctionsError notAvailable
                         (''No power grid data available for '' @ asString country))
          else bindA (setListValidation address powerGrids ''Invalid Power Grid''
                        ''Please select a valid power grid from the dropdown list'')
                 (\<lambda>_. returnA [])))))))
       (\<lambda>err. handleCustomFunctionError err ''Failed to set up power grid validation'')"

section \<open>Types lookup\<close>

definition apiTypesSheetExists :: "world \<Rightarrow> bool" where
  "apiTypesSheetExists w = (findSheet API_TYPES_SHEET_NAME (sheets w) \<noteq> None)"

definition ensureApiTypesSheet :: "env \<Rightarrow> unit action" where
  "ensureApiTypesSheet e w =
     (if \<not> apiTypesSheetExists w then loadAndPopulateApiTypes e w else (Inr (), w))"

text \<open>
  \<open>applyDataValidation\<close>. The used range of the column gives \<open>rowCount\<close> (the host throws
  when the column holds nothing); the data range runs from row 2 to row \<open>rowCount\<close> in
  the sheet's own numbering, that is from index 1 to index \<open>rowCount - 1\<close>.
\<close>

definition applyDataValidation :: "string \<Rightarrow> string \<Rightarrow> unit action" where
  "applyDataValidation cellAddress apiName w =
     (case map_of API_COLUMN_MAP apiName of
        None \<Rightarrow> (Inl (JsError (''Unknown API name: '' @ apiName)), w)
      | Some columnIndex \<Rightarrow>
          (case findSheet API_TYPES_SHEET_NAME (sheets w) of
             None \<Rightarrow> (Inl itemNotFound, w)
           | Some apiTypesSheet \<Rightarrow>
               (let used = columnUsedRows (cells apiTypesSheet) columnIndex
                in if used = [] then (Inl itemNotFound, w)
                   else
                   (let rowCount = last used - hd used + 1
                    in if rowCount \<le> 1
                       then (Inl (JsError (''No types found for API: '' @ apiName)), w)
                       else
                       (let dataRange = map (\<lambda>r. cellAt (cells apiTypesSheet) r columnIndex)
                                          [1..<rowCount];
                            values = filter (\<lambda>v. v \<noteq> CStr []) dataRange
                        in setListValidation cellAddress (map cellToString values)
                             ''Invalid Type''
                             ''Please select a valid type from the dropdown list'' w)))))"

definition handleTypesFunction :: "env \<Rightarrow> string \<Rightarrow> string \<Rightarrow> string action" where
  "handleTypesFunction e apiName address =
     catchA
       (bindA (ensureClient e) (\<lambda>_.
        bindA (liftR (validateApiName apiName)) (\<lambda>normalizedApiName.
        bindA (refreshSheetIfStale e API_TYPES_SHEET_NAME (loadAndPopulateApiTypes e)) (\<lambda>_.
        bindA (ensureApiTypesSheet e) (\<lambda>_.
        bindA (applyDataValidation address normalizedApiName) (\<lambda>_. returnA []))))))
       (\<lambda>err. handleCustomFunctionError err ''Failed to set up validation'')"

section \<open>Units lookup\<close>

definition API_CLASS_MAP :: "(string \<times> apiClass) list" where
  "API_CLASS_MAP =
     [(''location'', Location), (''mobile'', Mobile), (''fugitive'', Fugitive),
      (''stationary'', Stationary), (''calculation'', Calculation),
      (''transportationanddistribution'', TransportationAndDistribution),
      (''factor'', Factor)]"

definition fetchUnits :: "env \<Rightarrow> string \<Rightarrow> string \<Rightarrow> string list action" where
  "fetchUnits e apiName type =
     catchA
       (case map_of API_CLASS_MAP apiName of
          None \<Rightarrow> throwA (JsError (''Unknown API name: '' @ apiName))
        | Some ApiClass \<Rightarrow>
            bindA (emit (GetUnits ApiClass type)) (\<lambda>_.
              (case getUnits e ApiClass type of
                 Rejected reason \<Rightarrow> throwA reason
               | Resolved response \<Rightarrow>
                   (case (case response of Nullish \<Rightarrow> Undefined | Response u \<Rightarrow> u) of
                      JArr units \<Rightarrow>
                        if length units = 0
                        then throwA (JsError (''No units found for type: '' @ type))
                        else returnA units
                    | _ \<Rightarrow>
                        throwA (JsError (''Invalid response format from '' @ apiName
                                           @ '' API''))))))
       (\<lambda>err. case err of
                ThrownNullish \<Rightarrow> throwA (JsError cannotReadMessage)
              | _ \<Rightarrow> throwA (JsError (''Failed to fetch units: '' @
                                    (if errorMessage err = [] then ''Unknown error''
                                     else errorMessage err))))"

definition applyUnitsValidation :: "string \<Rightarrow> string list \<Rightarrow> unit action" where
  "applyUnitsValidation cellAddress units =
     setListValidation cellAddress units ''Invalid Unit''
       ''Please select a valid unit from the dropdown list''"

definition handleUnitsFunction :: "env \<Rightarrow> string \<Rightarrow> jsval \<Rightarrow> string \<Rightarrow> string action" where
  "handleUnitsFunction e apiName type address =
     catchA
       (if falsy type \<or> \<not> typeofString type \<or> trim (asString type) = []
        then throwA (CustomFunctionsError invalidValue
                       ''Type parameter is required and must be a non-empty string'')
        else
        bindA (ensureClient e) (\<lambda>_.
        bindA (liftR (validateApiName apiName)) (\<lambda>normalizedApiName.
        bindA (fetchUnits e normalizedApiName (trim (asString type))) (\<lambda>units.
        bindA (applyUnitsValidation address units) (\<lambda>_. returnA [])))))
       (\<lambda>err. handleCustomFunctionError err ''Failed to set up units validation'')"

section \<open>Reading the trace\<close>

text \<open>How many runs of a population routine a trace holds, and its requests to the remote
  service and its validation rules.\<close>

fun isPopulate :: "event \<Rightarrow> bool" where
  "isPopulate (Populate d) = True"
| "isPopulate _ = False"

definition populations :: "world \<Rightarrow> nat" where
  "populations w = length (filter isPopulate (trace w))"

fun isValidation :: "event \<Rightarrow> bool" where
  "isValidation (ListValidation s c src t m) = True"
| "isValidation _ = False"

definition validations :: "world \<Rightarrow> event list" where
  "validations w = filter isValidation (trace w)"

fun isRemoteCall :: "event \<Rightarrow> bool" where
  "isRemoteCall (GetTypes c) = True"
| "isRemoteCall (GetArea c) = True"
| "isRemoteCall (GetUnits c t) = True"
| "isRemoteCall _ = False"

definition remoteCalls :: "world \<Rightarrow> event list" where
  "remoteCalls w = filter isRemoteCall (trace w)"

section \<open>Predicates of the statements\<close>

text \<open>An action that runs no population routine, and one that runs at most one.\<close>

definition quiet :: "'a action \<Rightarrow> bool" where
  "quiet m = (\<forall>w. populations (snd (m w)) = populations w)"

definition atMostOnce :: "'a action \<Rightarrow> bool" where
  "atMostOnce m = (\<forall>w. populations (snd (m w)) \<le> populations w + 1)"

text \<open>An action whose outcome does not depend on the contents of the worksheets, only on
  their names, and that leaves the worksheets as they are.\<close>

definition sheetBlind :: "'a action \<Rightarrow> bool" where
  "sheetBlind m =
     (\<forall>w ss. map sheetName ss = map sheetName (sheets w) \<longrightarrow>
        m (w\<lparr>sheets := ss\<rparr>) = (fst (m w), (snd (m w))\<lparr>sheets := ss\<rparr>)
        \<and> sheets (snd (m w)) = sheets w)"

text \<open>Two actions that always leave the same state and return the same value when
  either returns one; when they throw, the errors may differ.\<close>

definition sameOutcome :: "'a action \<Rightarrow> 'a action \<Rightarrow> bool" where
  "sameOutcome m1 m2 =
     (\<forall>w. snd (m1 w) = snd (m2 w) \<and> (\<forall>x. (fst (m1 w) = Inr x) = (fst (m2 w) = Inr x)))"

text \<open>The test of \<open>getAreaDataForCountry\<close> on a row (its group and its country code), and
  the test of \<open>getAlpha3CodesForApi\<close> (its group, and an alpha-3 cell that is not empty).\<close>

definition areaRowMatches :: "string \<Rightarrow> uppercased \<Rightarrow> cell list \<Rightarrow> bool" where
  "areaRowMatches queryApiName a row =
     (map_option toLowerCase (rowText row AREA_COLUMN_apiName) = Some queryApiName
      \<and> map_option Latin1 (rowText row AREA_COLUMN_alpha3) = Some a)"

definition alpha3RowMatches :: "string \<Rightarrow> cell list \<Rightarrow> bool" where
  "alpha3RowMatches queryApiName row =
     (map_option toLowerCase (rowText row AREA_COLUMN_apiName) = Some queryApiName
      \<and> rowText row AREA_COLUMN_alpha3 \<noteq> None
      \<and> rowText row AREA_COLUMN_alpha3 \<noteq> Some [])"

text \<open>The answers of \<open>getArea\<close> that \<open>fetchAllAreaData\<close> turns into no locations: a
  rejection, a string that does not parse, a response that is \<open>null\<close> or whose
  \<open>locations\<close> is missing or not an array.\<close>

fun malformedResponse :: "locationsField response \<Rightarrow> bool" where
  "malformedResponse Nullish = True"
| "malformedResponse (Response LocationsFalsy) = True"
| "malformedResponse (Response LocationsNotArray) = True"
| "malformedResponse (Response (Locations ls)) = False"

fun malformedArea :: "areaRaw promise \<Rightarrow> bool" where
  "malformedArea (Rejected m) = True"
| "malformedArea (Resolved (RawString None)) = True"
| "malformedArea (Resolved (RawString (Some r))) = malformedResponse r"
| "malformedArea (Resolved (RawObject r)) = malformedResponse r"

section \<open>Sample states\<close>

text \<open>A workbook whose area dataset holds the given metadata row and nothing else, and a
  remote service that rejects every request, at clock \<open>t\<close>.\<close>

definition metadataWorld :: "cell list \<Rightarrow> world" where
  "metadataWorld row =
     \<lparr>sheets = [\<lparr>sheetName = ''API_Area_Data'', hidden = True, cells = [row]\<rparr>],
      activeSheet = ''Sheet1'', clientInstance = True, trace = []\<rparr>"

definition offlineEnv :: "int \<Rightarrow> env" where
  "offlineEnv t =
     \<lparr>now = t, credentials = True,
      getTypes = (\<lambda>c. Rejected (JsError ''offline'')),
      getArea = (\<lambda>c. Rejected (JsError ''offline'')),
      getUnits = (\<lambda>c u. Rejected (JsError ''offline''))\<rparr>"

text \<open>A workbook with one visible sheet and no dataset, before and after the session is
  set up; a workbook holding both datasets, written at clock 1700000000000; a service
  that answers every \<open>getUnits\<close>; an environment with no stored credentials.\<close>

definition signedOutWorld :: world where
  "signedOutWorld =
     \<lparr>sheets = [\<lparr>sheetName = ''Sheet1'', hidden = False, cells = []\<rparr>],
      activeSheet = ''Sheet1'', clientInstance = False, trace = []\<rparr>"

definition signedInWorld :: world where
  "signedInWorld =
     \<lparr>sheets = [\<lparr>sheetName = ''Sheet1'', hidden = False, cells = []\<rparr>],
      activeSheet = ''Sheet1'', clientInstance = True, trace = []\<rparr>"

definition cacheWorld :: world where
  "cacheWorld =
     \<lparr>sheets =
        [\<lparr>sheetName = ''Sheet1'', hidden = False, cells = []\<rparr>,
         \<lparr>sheetName = ''API_Types_Data'', hidden = True,
          cells =
            [[CStr ''METADATA'', CStr ''1700000000000''],
             [CStr ''Location'', CStr ''Mobile'', CStr ''Fugitive'', CStr ''Stationary'',
              CStr ''Calculation'', CStr ''TransportationAndDistribution''],
             [CStr ''electricity'', CStr ''diesel'', CStr ''refrigerant'', CStr ''coal'',
              CStr ''generic'', CStr ''freight'']]\<rparr>,
         \<lparr>sheetName = ''API_Area_Data'', hidden = True,
          cells =
            [[CStr ''METADATA'', CStr ''1700000000000''],
             [CStr ''API Name'', CStr ''Alpha3'', CStr ''Country Name'', CStr ''State/Province'',
              CStr ''Power Grid''],
             [CStr ''calculation'', CStr ''USA'', CStr ''United States'',
              CStr ''California, Texas, New York'', CStr ''WECC, ERCOT, NPCC''],
             [CStr ''calculation'', CStr ''CAN'', CStr ''Canada'',
              CStr ''Ontario, Quebec, British Columbia'', CStr []],
             [CStr ''mobile'', CStr ''USA'', CStr ''United States'', CStr ''California, Texas'',
              CStr ''WECC, ERCOT'']]\<rparr>],
      activeSheet = ''Sheet1'', clientInstance = True, trace = []\<rparr>"

definition unitsEnv :: env where
  "unitsEnv = (offlineEnv 1700000000001)
     \<lparr>getUnits := (\<lambda>c u. Resolved (Response (JArr [''kg'', ''t''])))\<rparr>"

definition noCredentialsEnv :: env where
  "noCredentialsEnv = (offlineEnv 1700000000000)\<lparr>credentials := False\<rparr>"

text \<open>An area dataset in which the mobile group lists the same country twice.\<close>

definition duplicateCountryWorld :: world where
  "duplicateCountryWorld =
     \<lparr>sheets =
        [\<lparr>sheetName = ''Sheet1'', hidden = False, cells = []\<rparr>,
         \<lparr>sheetName = ''API_Area_Data'', hidden = True,
          cells =
            [[CStr ''METADATA'', CStr ''1700000000000''],
             [CStr ''API Name'', CStr ''Alpha3'', CStr ''Country Name'', CStr ''State/Province'',
              CStr ''Power Grid''],
             [CStr ''mobile'', CStr ''USA'', CStr ''United States'', CStr ''California'',
              CStr ''WECC''],
             [CStr ''mobile'', CStr ''USA'', CStr ''United States'', CStr ''Texas'',
              CStr ''ERCOT'']]\<rparr>],
      activeSheet = ''Sheet1'', clientInstance = True, trace = []\<rparr>"

text \<open>A service whose Mobile \<open>getTypes\<close> resolves to \<open>{types: "abc"}\<close>, and one whose
  Mobile \<open>getTypes\<close> is rejected; the five other categories answer two types each.\<close>

definition malformedTypesEnv :: env where
  "malformedTypesEnv =
     \<lparr>now = 1700000000000, credentials = True,
      getTypes = (\<lambda>c. if c = Mobile then Resolved (Response (JStr ''abc''))
                       else Resolved (Response (JArr [''t1'', ''t2'']))),
      getArea = (\<lambda>c. Rejected (JsError ''offline'')),
      getUnits = (\<lambda>c u. Rejected (JsError ''offline''))\<rparr>"

definition rejectedTypesEnv :: env where
  "rejectedTypesEnv =
     malformedTypesEnv\<lparr>getTypes := (\<lambda>c. if c = Mobile
                                          then Rejected (JsError ''API Error'')
                                          else Resolved (Response (JArr [''t1'', ''t2''])))\<rparr>"

text \<open>A service whose \<open>getTypes\<close> of one category resolves to \<open>{types: []}\<close>, the five
  other categories answering two types each.\<close>

definition emptyTypesEnv :: "apiClass \<Rightarrow> env" where
  "emptyTypesEnv c =
     malformedTypesEnv\<lparr>getTypes := (\<lambda>k. if k = c then Resolved (Response (JArr []))
                                          else Resolved (Response (JArr [''t1'', ''t2''])))\<rparr>"

section \<open>Properties\<close>

subsection \<open>Staleness\<close>

lemma findSheet_metadataWorld:
  "findSheet AREA_DATA_SHEET_NAME (sheets (metadataWorld row))
     = Some \<lparr>sheetName = ''API_Area_Data'', hidden = True, cells = [row]\<rparr>"
  by (simp add: metadataWorld_def findSheet_def AREA_DATA_SHEET_NAME_def)

lemma isSheetDataStale_NaN:
  assumes "findSheet n (sheets w) = Some sh"
    and "cellAt (cells sh) 0 0 = CStr ''METADATA''"
    and "parseInt (cellToString (cellAt (cells sh) 0 1)) = NaN"
  shows "\<not> isSheetDataStale e w n"
  using assms by (simp add: isSheetDataStale_def getSheetMetadata_def)

text \<open>
  C1. A dataset with no valid timestamp marker is to be judged stale. The code does so
  when the sheet cannot be read and when the first cell is not \<open>METADATA\<close>; but a
  marker whose second cell does not parse (here an empty cell) gives the timestamp
  \<open>NaN\<close>, the age \<open>NaN\<close>, and \<open>NaN > REFRESH_INTERVAL_MS\<close> is false: the dataset is
  judged fresh, at every clock.
\<close>

theorem isSheetDataStale_unparsable_timestamp:
  "\<not> isSheetDataStale e (metadataWorld [CStr ''METADATA'', CStr []]) AREA_DATA_SHEET_NAME"
proof -
  have "parseInt [] = NaN"
    by (simp add: parseInt_def)
  then show ?thesis
    by (intro isSheetDataStale_NaN [OF findSheet_metadataWorld]) (simp_all add: cellAt_def)
qed

text \<open>
  C2. A dataset whose marker carries the timestamp \<open>t\<close> is stale exactly when
  \<open>now - t\<close> exceeds \<open>REFRESH_INTERVAL_MS\<close>, which is two days in milliseconds; at an
  age of exactly \<open>REFRESH_INTERVAL_MS\<close> it is not stale.
\<close>

theorem isSheetDataStale_age:
  assumes "findSheet n (sheets w) = Some sh"
    and "cellAt (cells sh) 0 0 = CStr ''METADATA''"
    and "parseInt (cellToString (cellAt (cells sh) 0 1)) = Number t"
  shows "(isSheetDataStale e w n \<longleftrightarrow> now e - t > REFRESH_INTERVAL_MS)
       \<and> (now e - t = REFRESH_INTERVAL_MS \<longrightarrow> \<not> isSheetDataStale e w n)
       \<and> REFRESH_INTERVAL_MS = 172800000"
  using assms by (simp add: isSheetDataStale_def getSheetMetadata_def REFRESH_INTERVAL_MS_def)

theorem isSheetDataStale_age_witness:
  "\<not> isSheetDataStale (offlineEnv 1700172800000)
        (metadataWorld [CStr ''METADATA'', CStr ''1700000000000'']) AREA_DATA_SHEET_NAME
   \<and> isSheetDataStale (offlineEnv 1700172800001)
        (metadataWorld [CStr ''METADATA'', CStr ''1700000000000'']) AREA_DATA_SHEET_NAME"
proof -
  let ?w = "metadataWorld [CStr ''METADATA'', CStr ''1700000000000'']"
  let ?sh = "\<lparr>sheetName = ''API_Area_Data'', hidden = True,
               cells = [[CStr ''METADATA'', CStr ''1700000000000'']]\<rparr>"
  have marker: "cellAt (cells ?sh) 0 0 = CStr ''METADATA''"
    by (simp add: cellAt_def)
  have stamp: "parseInt (cellToString (cellAt (cells ?sh) 0 1)) = Number 1700000000000"
    by code_simp
  have "now (offlineEnv 1700172800000) - 1700000000000 = REFRESH_INTERVAL_MS"
    and "now (offlineEnv 1700172800001) - 1700000000000 > REFRESH_INTERVAL_MS"
    by (simp_all add: offlineEnv_def REFRESH_INTERVAL_MS_def)
  with isSheetDataStale_age [OF findSheet_metadataWorld marker stamp, of "offlineEnv 1700172800000"]
    isSheetDataStale_age [OF findSheet_metadataWorld marker stamp, of "offlineEnv 1700172800001"]
  show ?thesis by simp
qed

text \<open>
  The part of C1 the code does implement: a dataset whose sheet cannot be read, or whose
  first cell is not the marker \<open>METADATA\<close>, is judged stale.
\<close>

theorem isSheetDataStale_no_marker:
  "(findSheet n (sheets w) = None \<longrightarrow> isSheetDataStale e w n)
   \<and> (findSheet n (sheets w) = Some sh \<and> cellAt (cells sh) 0 0 \<noteq> CStr ''METADATA''
        \<longrightarrow> isSheetDataStale e w n)"
  by (simp add: isSheetDataStale_def getSheetMetadata_def)

theorem isSheetDataStale_no_marker_witness:
  "isSheetDataStale (offlineEnv 0) signedInWorld AREA_DATA_SHEET_NAME
   \<and> isSheetDataStale (offlineEnv 0) (metadataWorld [CStr ''legacy'', CStr ''1'']) AREA_DATA_SHEET_NAME"
proof -
  have absent: "findSheet AREA_DATA_SHEET_NAME (sheets signedInWorld) = None"
    by code_simp
  have other: "cellAt (cells \<lparr>sheetName = ''API_Area_Data'', hidden = True,
                               cells = [[CStr ''legacy'', CStr ''1'']]\<rparr>) 0 0
                 \<noteq> CStr ''METADATA''"
    by (simp add: cellAt_def)
  from isSheetDataStale_no_marker [of AREA_DATA_SHEET_NAME signedInWorld "offlineEnv 0"] absent
  have a: "isSheetDataStale (offlineEnv 0) signedInWorld AREA_DATA_SHEET_NAME"
    by blast
  from isSheetDataStale_no_marker [of AREA_DATA_SHEET_NAME
      "metadataWorld [CStr ''legacy'', CStr ''1'']" "offlineEnv 0"
      "\<lparr>sheetName = ''API_Area_Data'', hidden = True, cells = [[CStr ''legacy'', CStr ''1'']]\<rparr>"]
    findSheet_metadataWorld [of "[CStr ''legacy'', CStr ''1'']"] other
  have b: "isSheetDataStale (offlineEnv 0) (metadataWorld [CStr ''legacy'', CStr ''1''])
             AREA_DATA_SHEET_NAME"
    by blast
  from a b show ?thesis by blast
qed

subsection \<open>Category names\<close>

lemma sublist_prepend: "sublist n ys \<Longrightarrow> sublist n (ps @ ys)"
  unfolding sublist_def by (metis append.assoc)

lemma sublist_join: "n \<in> set xs \<Longrightarrow> sublist n (join sep xs)"
proof (induction sep xs rule: join.induct)
  case (1 sep)
  then show ?case by simp
next
  case (2 sep x)
  then show ?case by simp
next
  case (3 sep x y ys)
  show ?case
  proof (cases "n = x")
    case True
    then show ?thesis by simp
  next
    case False
    with 3 have "sublist n (join sep (y # ys))" by simp
    then have "sublist n ((x @ sep) @ join sep (y # ys))" by (rule sublist_prepend)
    then show ?thesis by simp
  qed
qed

text \<open>
  C6. When the lower-cased and trimmed input is one of the seven valid names,
  \<open>validateApiName\<close> returns that normalised form; otherwise it throws an
  \<open>invalidValue\<close> error whose message contains each of the seven names.
\<close>

theorem validateApiName_spec:
  "(trim (toLowerCase s) \<in> set VALID_API_NAMES \<longrightarrow>
      validateApiName s = Inr (trim (toLowerCase s)))
   \<and> (trim (toLowerCase s) \<notin> set VALID_API_NAMES \<longrightarrow>
      (\<exists>msg. validateApiName s = Inl (CustomFunctionsError invalidValue msg)
         \<and> (\<forall>n \<in> set VALID_API_NAMES. sublist n msg)))
   \<and> VALID_API_NAMES = [''location'', ''mobile'', ''fugitive'', ''stationary'',
        ''calculation'', ''transportationanddistribution'', ''factor'']"
proof (intro conjI impI)
  assume "trim (toLowerCase s) \<in> set VALID_API_NAMES"
  then show "validateApiName s = Inr (trim (toLowerCase s))"
    by (simp add: validateApiName_def)
next
  assume bad: "trim (toLowerCase s) \<notin> set VALID_API_NAMES"
  have "\<forall>n \<in> set VALID_API_NAMES.
          sublist n (''Invalid API name. Valid options: '' @ join '', '' VALID_API_NAMES)"
    by (intro ballI sublist_prepend sublist_join)
  with bad show "\<exists>msg. validateApiName s = Inl (CustomFunctionsError invalidValue msg)
         \<and> (\<forall>n \<in> set VALID_API_NAMES. sublist n msg)"
    unfolding validateApiName_def Let_def by (simp only: if_True simp_thms) blast
next
  show "VALID_API_NAMES = [''location'', ''mobile'', ''fugitive'', ''stationary'',
      ''calculation'', ''transportationanddistribution'', ''factor'']"
    by (simp add: VALID_API_NAMES_def)
qed

theorem validateApiName_spec_witness:
  "validateApiName '' Mobile '' = Inr ''mobile''
   \<and> (\<exists>msg. validateApiName ''petrol'' = Inl (CustomFunctionsError invalidValue msg)
         \<and> sublist ''transportationanddistribution'' msg)"
proof -
  have n1: "trim (toLowerCase '' Mobile '') = ''mobile''"
    by code_simp
  have v1: "''mobile'' \<in> set VALID_API_NAMES"
    and v2: "''transportationanddistribution'' \<in> set VALID_API_NAMES"
    by (simp_all add: VALID_API_NAMES_def)
  have n2: "trim (toLowerCase ''petrol'') \<notin> set VALID_API_NAMES"
    by code_simp
  from validateApiName_spec [of "'' Mobile ''"] n1 v1
  have a: "validateApiName '' Mobile '' = Inr ''mobile''"
    by metis
  from validateApiName_spec [of "''petrol''"] n2 v2
  have b: "\<exists>msg. validateApiName ''petrol'' = Inl (CustomFunctionsError invalidValue msg)
         \<and> sublist ''transportationanddistribution'' msg"
    by blast
  from a b show ?thesis by blast
qed

subsection \<open>Effects of the population routines\<close>

lemma findSheet_append_new:
  "sheetName s = n \<Longrightarrow> findSheet n (ss @ [s]) \<noteq> None"
  by (induction ss) (auto simp add: findSheet_def)

lemma findSheet_updateSheet_eq:
  assumes "\<And>s. sheetName (f s) = sheetName s"
  shows "findSheet m (updateSheet n f ss)
           = (if m = n then map_option f (findSheet m ss) else findSheet m ss)"
  using assms by (induction ss) (auto simp add: findSheet_def)

lemma findSheet_updateSheet:
  assumes "\<And>s. sheetName (f s) = sheetName s"
  shows "(findSheet m (updateSheet n f ss) = None) = (findSheet m ss = None)"
  by (simp add: findSheet_updateSheet_eq [OF assms])

lemma setSheetMetadata_ok:
  assumes "findSheet n (sheets w) \<noteq> None"
  shows "\<exists>w1. setSheetMetadata n md w = (Inr (), w1) \<and> trace w1 = trace w
           \<and> (\<forall>m. (findSheet m (sheets w1) = None) = (findSheet m (sheets w) = None))"
  using assms by (auto simp add: setSheetMetadata_def findSheet_updateSheet)

lemma writeAreaDataToSheet_effect:
  "\<exists>w1. writeAreaDataToSheet e m w = (Inr (), w1) \<and> trace w1 = trace w
         \<and> findSheet AREA_DATA_SHEET_NAME (sheets w1) \<noteq> None"
proof -
  define kept where "kept = (case findSheet AREA_DATA_SHEET_NAME (sheets w) of
                 None \<Rightarrow> sheets w
               | Some sh \<Rightarrow> deleteSheet AREA_DATA_SHEET_NAME (sheets w))"
  define added where "added = w\<lparr>sheets := kept @
                [\<lparr>sheetName = AREA_DATA_SHEET_NAME, hidden = True,
                  cells = writeRange 1 0
                    (areaHeader # concat (map (\<lambda>entry. map (areaRow (fst entry)) (snd entry)) m))
                    []\<rparr>]\<rparr>"
  have found: "findSheet AREA_DATA_SHEET_NAME (sheets added) \<noteq> None"
    by (simp add: added_def findSheet_append_new)
  have tr0: "trace added = trace w"
    by (simp add: added_def)
  from setSheetMetadata_ok [OF found, of "\<lparr>timestamp = Number (now e)\<rparr>"]
  obtain w2 where w2: "setSheetMetadata AREA_DATA_SHEET_NAME \<lparr>timestamp = Number (now e)\<rparr> added
                         = (Inr (), w2)"
    and tr: "trace w2 = trace added"
    and ex: "(findSheet AREA_DATA_SHEET_NAME (sheets w2) = None)
               = (findSheet AREA_DATA_SHEET_NAME (sheets added) = None)"
    by blast
  have "writeAreaDataToSheet e m w = (Inr (), w2)"
    unfolding writeAreaDataToSheet_def Let_def using w2
    by (simp add: added_def kept_def)
  moreover have "trace w2 = trace w" using tr tr0 by simp
  moreover have "findSheet AREA_DATA_SHEET_NAME (sheets w2) \<noteq> None" using ex found by simp
  ultimately show ?thesis by blast
qed

lemma loadAndPopulateAreaData_effect:
  "\<exists>w1. loadAndPopulateAreaData e w = (Inr (), w1) \<and> populations w1 = populations w + 1
         \<and> findSheet AREA_DATA_SHEET_NAME (sheets w1) \<noteq> None"
proof -
  let ?w0 = "w\<lparr>trace := trace w @ [Populate AREA_DATA_SHEET_NAME]\<rparr>"
  obtain m wf where f: "fetchAllAreaData e ?w0 = (Inr m, wf)"
    and ftr: "trace wf = trace ?w0 @ map (\<lambda>config. GetArea (snd config)) API_AREA_CONFIGS"
    by (simp add: fetchAllAreaData_def Let_def)
  from writeAreaDataToSheet_effect [of e m wf]
  obtain w1 where wr: "writeAreaDataToSheet e m wf = (Inr (), w1)"
    and wtr: "trace w1 = trace wf"
    and ex: "findSheet AREA_DATA_SHEET_NAME (sheets w1) \<noteq> None"
    by blast
  have "loadAndPopulateAreaData e w = (Inr (), w1)"
    unfolding loadAndPopulateAreaData_def bindA_def emit_def using f wr by simp
  moreover have "populations w1 = populations w + 1"
    using wtr ftr by (simp add: populations_def API_AREA_CONFIGS_def)
  ultimately show ?thesis using ex by blast
qed


lemma setSheetMetadata_result:
  "setSheetMetadata n md w = (r, w1) \<Longrightarrow>
     trace w1 = trace w \<and> (r = Inr () \<longrightarrow> findSheet n (sheets w1) \<noteq> None)"
  by (auto simp add: setSheetMetadata_def findSheet_updateSheet_eq split: option.splits)

lemma getOrCreateApiTypesSheet_trace [simp]:
  "trace (getOrCreateApiTypesSheet w) = trace w"
  by (simp add: getOrCreateApiTypesSheet_def split: option.splits)

lemma writeApiTypesToSheet_effect:
  assumes "writeApiTypesToSheet e m w = (r, w1)"
  shows "trace w1 = trace w \<and> (r = Inr () \<longrightarrow> findSheet API_TYPES_SHEET_NAME (sheets w1) \<noteq> None)"
  using assms unfolding writeApiTypesToSheet_def Let_def
  by (auto split: number.splits sum.splits dest!: setSheetMetadata_result)

lemma ensureClient_effect:
  "ensureClient e w = (r, w1) \<Longrightarrow> trace w1 = trace w \<and> sheets w1 = sheets w"
  by (auto simp add: ensureClient_def split: if_splits)

lemma fetchAllApiTypes_effect:
  assumes "fetchAllApiTypes e w = (r, w1)"
  shows "populations w1 = populations w"
  using assms unfolding fetchAllApiTypes_def bindA_def Let_def
  by (auto split: prod.splits sum.splits dest!: ensureClient_effect
        simp add: populations_def API_TYPES_CONFIGS_def)

lemma loadAndPopulateApiTypes_effect:
  assumes "loadAndPopulateApiTypes e w = (r, w1)"
  shows "populations w1 = populations w + 1
         \<and> (r = Inr () \<longrightarrow> findSheet API_TYPES_SHEET_NAME (sheets w1) \<noteq> None)"
proof -
  define w0 where "w0 = w\<lparr>trace := trace w @ [Populate API_TYPES_SHEET_NAME]\<rparr>"
  have p0: "populations w0 = populations w + 1"
    by (simp add: w0_def populations_def)
  obtain rf wf where f: "fetchAllApiTypes e w0 = (rf, wf)"
    by (cases "fetchAllApiTypes e w0")
  from fetchAllApiTypes_effect [OF f] have pf: "populations wf = populations w0" .
  show ?thesis
  proof (cases rf)
    case (Inl err)
    with assms f have "r = Inl err" "w1 = wf"
      by (simp_all add: loadAndPopulateApiTypes_def bindA_def emit_def w0_def)
    with pf p0 show ?thesis by simp
  next
    case (Inr m)
    with assms f have wr: "writeApiTypesToSheet e m wf = (r, w1)"
      by (simp add: loadAndPopulateApiTypes_def bindA_def emit_def w0_def)
    from writeApiTypesToSheet_effect [OF wr] pf p0 show ?thesis
      by (simp add: populations_def)
  qed
qed


lemma bindA_cases:
  obtains (stop) err w1 where "m w = (Inl err, w1)" "bindA m f w = (Inl err, w1)"
        | (go) x w1 where "m w = (Inr x, w1)" "bindA m f w = f x w1"
proof (cases "m w")
  case (Pair r w1)
  then show ?thesis
    by (cases r) (auto simp add: bindA_def intro: stop go)
qed

lemma quiet_bindA:
  assumes "quiet m" and "\<And>x. quiet (f x)"
  shows "quiet (bindA m f)"
  unfolding quiet_def
proof
  fix w
  show "populations (snd (bindA m f w)) = populations w"
  proof (cases m f w rule: bindA_cases)
    case (stop err w1)
    moreover from assms(1) have "populations (snd (m w)) = populations w"
      by (simp add: quiet_def)
    ultimately show ?thesis by simp
  next
    case (go x w1)
    moreover from assms(1) have "populations (snd (m w)) = populations w"
      by (simp add: quiet_def)
    moreover from assms(2) have "populations (snd (f x w1)) = populations w1"
      by (simp add: quiet_def)
    ultimately show ?thesis by simp
  qed
qed

lemma atMostOnce_bindA:
  assumes "quiet m" and "\<And>x. atMostOnce (f x)"
  shows "atMostOnce (bindA m f)"
  unfolding atMostOnce_def
proof
  fix w
  show "populations (snd (bindA m f w)) \<le> populations w + 1"
  proof (cases m f w rule: bindA_cases)
    case (stop err w1)
    moreover from assms(1) have "populations (snd (m w)) = populations w"
      by (simp add: quiet_def)
    ultimately show ?thesis by simp
  next
    case (go x w1)
    moreover from assms(1) have "populations (snd (m w)) = populations w"
      by (simp add: quiet_def)
    moreover from assms(2) have "populations (snd (f x w1)) \<le> populations w1 + 1"
      by (simp add: atMostOnce_def)
    ultimately show ?thesis by simp
  qed
qed

lemma quiet_atMostOnce: "quiet m \<Longrightarrow> atMostOnce m"
  by (simp add: quiet_def atMostOnce_def)

lemma quiet_handleCustomFunctionError: "quiet (handleCustomFunctionError err d)"
  by (simp add: quiet_def handleCustomFunctionError_def throwA_def split: error.splits)

lemma atMostOnce_catchA:
  assumes "atMostOnce m" and "\<And>err. quiet (h err)"
  shows "atMostOnce (catchA m h)"
  unfolding atMostOnce_def
proof
  fix w
  from assms(1) have m: "populations (snd (m w)) \<le> populations w + 1"
    by (simp add: atMostOnce_def)
  show "populations (snd (catchA m h w)) \<le> populations w + 1"
  proof (cases "m w")
    case (Pair r w1)
    show ?thesis
    proof (cases r)
      case (Inl err)
      from assms(2) have "populations (snd (h err w1)) = populations w1"
        by (simp add: quiet_def)
      with m Pair Inl show ?thesis by (simp add: catchA_def)
    next
      case (Inr x)
      with m Pair show ?thesis by (simp add: catchA_def)
    qed
  qed
qed

lemma quiet_ensureClient: "quiet (ensureClient e)"
  by (simp add: quiet_def ensureClient_def populations_def)

lemma quiet_liftR: "quiet (liftR r)"
  by (simp add: quiet_def liftR_def)

lemma quiet_throwA: "quiet (throwA err)"
  by (simp add: quiet_def throwA_def)

lemma quiet_returnA: "quiet (returnA x)"
  by (simp add: quiet_def returnA_def)

lemma quiet_setListValidation: "quiet (setListValidation a vs t m)"
  by (simp add: quiet_def setListValidation_def applyListValidation_def emit_def populations_def
        split: sum.splits)

lemma quiet_getAlpha3CodesForApi: "quiet (getAlpha3CodesForApi n)"
  by (simp add: quiet_def getAlpha3CodesForApi_def split: option.splits)

lemma quiet_getAreaDataForCountry: "quiet (getAreaDataForCountry n a c)"
  by (simp add: quiet_def getAreaDataForCountry_def split: option.splits)

lemma quiet_applyDataValidation: "quiet (applyDataValidation a n)"
  using quiet_setListValidation
  by (simp add: quiet_def applyDataValidation_def Let_def split: option.splits)

lemma deleteSheetIfExists_effect:
  "deleteSheetIfExists n w = (Inr (), w\<lparr>sheets := deleteSheet n (sheets w)\<rparr>)
   \<or> deleteSheetIfExists n w = (Inr (), w)"
  by (simp add: deleteSheetIfExists_def split: option.splits)

lemma refresh_then_ensure_area:
  assumes k: "quiet k"
  shows "atMostOnce (bindA (refreshSheetIfStale e AREA_DATA_SHEET_NAME (loadAndPopulateAreaData e))
           (\<lambda>_. bindA (ensureAreaDataSheet e) (\<lambda>_. k)))"
  unfolding atMostOnce_def
proof
  fix w
  let ?m = "bindA (refreshSheetIfStale e AREA_DATA_SHEET_NAME (loadAndPopulateAreaData e))
           (\<lambda>_. bindA (ensureAreaDataSheet e) (\<lambda>_. k))"
  from k have kq: "\<And>v. populations (snd (k v)) = populations v" by (simp add: quiet_def)
  show "populations (snd (?m w)) \<le> populations w + 1"
  proof (cases "sheetExists w AREA_DATA_SHEET_NAME")
    case False
    then have r: "refreshSheetIfStale e AREA_DATA_SHEET_NAME (loadAndPopulateAreaData e) w = (Inr False, w)"
      by (simp add: refreshSheetIfStale_def)
    from False have ne: "\<not> areaDataSheetExists w"
      by (simp add: sheetExists_def areaDataSheetExists_def)
    from loadAndPopulateAreaData_effect [of e w] obtain w1
      where l: "loadAndPopulateAreaData e w = (Inr (), w1)" and p: "populations w1 = populations w + 1"
      by blast
    have "?m w = k w1"
      using r ne l by (simp add: bindA_def ensureAreaDataSheet_def)
    with p kq show ?thesis by simp
  next
    case True
    show ?thesis
    proof (cases "isSheetDataStale e w AREA_DATA_SHEET_NAME")
      case False
      with True have r: "refreshSheetIfStale e AREA_DATA_SHEET_NAME (loadAndPopulateAreaData e) w = (Inr False, w)"
        by (simp add: refreshSheetIfStale_def)
      from True have ex: "areaDataSheetExists w"
        by (simp add: sheetExists_def areaDataSheetExists_def)
      have "?m w = k w"
        using r ex by (simp add: bindA_def ensureAreaDataSheet_def)
      with kq show ?thesis by simp
    next
      case stale: True
      obtain wd where d: "deleteSheetIfExists AREA_DATA_SHEET_NAME w = (Inr (), wd)"
        and pd: "populations wd = populations w"
        using deleteSheetIfExists_effect [of AREA_DATA_SHEET_NAME w]
        by (auto simp add: populations_def)
      from loadAndPopulateAreaData_effect [of e wd] obtain w1
        where l: "loadAndPopulateAreaData e wd = (Inr (), w1)"
          and p: "populations w1 = populations wd + 1"
          and ex: "findSheet AREA_DATA_SHEET_NAME (sheets w1) \<noteq> None"
        by blast
      have r: "refreshSheetIfStale e AREA_DATA_SHEET_NAME (loadAndPopulateAreaData e) w = (Inr True, w1)"
        using True stale d l by (simp add: refreshSheetIfStale_def bindA_def returnA_def)
      have "?m w = k w1"
        using r ex by (auto simp add: bindA_def ensureAreaDataSheet_def areaDataSheetExists_def)
      with p pd kq show ?thesis by simp
    qed
  qed
qed


lemma refresh_then_ensure_types:
  assumes k: "quiet k"
  shows "atMostOnce (bindA (refreshSheetIfStale e API_TYPES_SHEET_NAME (loadAndPopulateApiTypes e))
           (\<lambda>_. bindA (ensureApiTypesSheet e) (\<lambda>_. k)))"
  unfolding atMostOnce_def
proof
  fix w
  let ?m = "bindA (refreshSheetIfStale e API_TYPES_SHEET_NAME (loadAndPopulateApiTypes e))
           (\<lambda>_. bindA (ensureApiTypesSheet e) (\<lambda>_. k))"
  from k have kq: "\<And>v. populations (snd (k v)) = populations v" by (simp add: quiet_def)
  show "populations (snd (?m w)) \<le> populations w + 1"
  proof (cases "sheetExists w API_TYPES_SHEET_NAME \<and> isSheetDataStale e w API_TYPES_SHEET_NAME")
    case False
    then have r: "refreshSheetIfStale e API_TYPES_SHEET_NAME (loadAndPopulateApiTypes e) w = (Inr False, w)"
      by (auto simp add: refreshSheetIfStale_def)
    show ?thesis
    proof (cases "apiTypesSheetExists w")
      case True
      with r have "?m w = k w"
        by (simp add: bindA_def ensureApiTypesSheet_def)
      with kq show ?thesis by simp
    next
      case absent: False
      obtain rl w1 where l: "loadAndPopulateApiTypes e w = (rl, w1)"
        by (cases "loadAndPopulateApiTypes e w")
      from loadAndPopulateApiTypes_effect [OF l] have p: "populations w1 = populations w + 1"
        by simp
      have "?m w = (case rl of Inl err \<Rightarrow> (Inl err, w1) | Inr x \<Rightarrow> k w1)"
        using r absent l by (simp add: bindA_def ensureApiTypesSheet_def split: sum.splits)
      with p kq show ?thesis by (simp split: sum.splits)
    qed
  next
    case True
    obtain wd where d: "deleteSheetIfExists API_TYPES_SHEET_NAME w = (Inr (), wd)"
      and pd: "populations wd = populations w"
      using deleteSheetIfExists_effect [of API_TYPES_SHEET_NAME w]
      by (auto simp add: populations_def)
    obtain rl w1 where l: "loadAndPopulateApiTypes e wd = (rl, w1)"
      by (cases "loadAndPopulateApiTypes e wd")
    from loadAndPopulateApiTypes_effect [OF l]
    have p: "populations w1 = populations wd + 1"
      and ex: "rl = Inr () \<longrightarrow> findSheet API_TYPES_SHEET_NAME (sheets w1) \<noteq> None"
      by simp_all
    show ?thesis
    proof (cases rl)
      case (Inl err)
      then have "?m w = (Inl err, w1)"
        using True d l by (simp add: refreshSheetIfStale_def bindA_def)
      with p pd show ?thesis by simp
    next
      case (Inr u)
      then have r: "refreshSheetIfStale e API_TYPES_SHEET_NAME (loadAndPopulateApiTypes e) w = (Inr True, w1)"
        using True d l by (simp add: refreshSheetIfStale_def bindA_def returnA_def)
      from Inr ex have "apiTypesSheetExists w1"
        by (simp add: apiTypesSheetExists_def)
      with r have "?m w = k w1"
        by (simp add: bindA_def ensureApiTypesSheet_def)
      with p pd kq show ?thesis by simp
    qed
  qed
qed

lemma atMostOnce_if:
  "atMostOnce a \<Longrightarrow> atMostOnce b \<Longrightarrow> atMostOnce (if c then a else b)"
  by simp

lemma atMostOnce_area_chain:
  assumes "\<And>n. quiet (k n)"
  shows "atMostOnce
           (bindA (ensureClient e) (\<lambda>_.
            bindA (liftR v) (\<lambda>n.
            bindA (refreshSheetIfStale e AREA_DATA_SHEET_NAME (loadAndPopulateAreaData e)) (\<lambda>_.
            bindA (ensureAreaDataSheet e) (\<lambda>_. k n)))))"
  apply (rule atMostOnce_bindA [OF quiet_ensureClient])
  apply (rule atMostOnce_bindA [OF quiet_liftR])
  apply (rule refresh_then_ensure_area)
  apply (rule assms)
  done

lemma atMostOnce_handleCountryFunction: "atMostOnce (handleCountryFunction e apiName address)"
  unfolding handleCountryFunction_def
  apply (rule atMostOnce_catchA)
   apply (rule atMostOnce_area_chain)
   apply (rule quiet_bindA [OF quiet_getAlpha3CodesForApi])
   apply (simp add: quiet_throwA quiet_bindA quiet_setListValidation quiet_returnA)
  apply (rule quiet_handleCustomFunctionError)
  done

lemma atMostOnce_handleStateProvinceFunction:
  "atMostOnce (handleStateProvinceFunction e apiName country address)"
  unfolding handleStateProvinceFunction_def
  apply (rule atMostOnce_catchA)
   apply (rule atMostOnce_if)
    apply (rule quiet_atMostOnce [OF quiet_throwA])
   apply (rule atMostOnce_area_chain)
   apply (rule quiet_bindA [OF quiet_getAreaDataForCountry])
   apply (simp add: quiet_throwA quiet_bindA quiet_setListValidation quiet_returnA)
  apply (rule quiet_handleCustomFunctionError)
  done

lemma atMostOnce_handlePowerGridFunction:
  "atMostOnce (handlePowerGridFunction e apiName country address)"
  unfolding handlePowerGridFunction_def
  apply (rule atMostOnce_catchA)
   apply (rule atMostOnce_if)
    apply (rule quiet_atMostOnce [OF quiet_throwA])
   apply (rule atMostOnce_area_chain)
   apply (rule quiet_bindA [OF quiet_getAreaDataForCountry])
   apply (simp add: quiet_throwA quiet_bindA quiet_setListValidation quiet_returnA)
  apply (rule quiet_handleCustomFunctionError)
  done

lemma atMostOnce_handleTypesFunction: "atMostOnce (handleTypesFunction e apiName address)"
  unfolding handleTypesFunction_def
  apply (rule atMostOnce_catchA)
   apply (rule atMostOnce_bindA [OF quiet_ensureClient])
   apply (rule atMostOnce_bindA [OF quiet_liftR])
   apply (rule refresh_then_ensure_types)
   apply (rule quiet_bindA [OF quiet_applyDataValidation])
   apply (rule quiet_returnA)
  apply (rule quiet_handleCustomFunctionError)
  done

text \<open>
  C4. Whatever the state of the cache (dataset absent, present and fresh, present and
  stale), one call of a cache-backed lookup handler runs the population routine at most
  once: after a refresh the dataset exists, so the creation step finds it.
\<close>

theorem one_population_per_lookup:
  "populations (snd (handleCountryFunction e apiName address w)) \<le> populations w + 1
   \<and> populations (snd (handleStateProvinceFunction e apiName country address w)) \<le> populations w + 1
   \<and> populations (snd (handlePowerGridFunction e apiName country address w)) \<le> populations w + 1
   \<and> populations (snd (handleTypesFunction e apiName address w)) \<le> populations w + 1"
  using atMostOnce_handleCountryFunction [of e apiName address]
    atMostOnce_handleStateProvinceFunction [of e apiName country address]
    atMostOnce_handlePowerGridFunction [of e apiName country address]
    atMostOnce_handleTypesFunction [of e apiName address]
  unfolding atMostOnce_def by blast

theorem one_population_per_lookup_witness:
  "populations (snd (handleCountryFunction (offlineEnv 1700000000001) ''mobile'' ''Sheet1!B2''
                       signedInWorld)) = 1
   \<and> populations (snd (handleCountryFunction (offlineEnv 1700000000001) ''mobile''
                          ''Sheet1!B2'' cacheWorld)) = 0
   \<and> populations (snd (handleCountryFunction (offlineEnv 1900000000000) ''mobile''
                          ''Sheet1!B2'' cacheWorld)) = 1
   \<and> populations (snd (handleTypesFunction (offlineEnv 1900000000000) ''mobile''
                          ''Sheet1!B2'' cacheWorld)) = 1
   \<and> populations (snd (handlePowerGridFunction (offlineEnv 1900000000000) ''mobile''
                          (JStr ''USA'') ''Sheet1!B2'' cacheWorld)) = 1"
proof -
  have start: "populations signedInWorld = 0" "populations cacheWorld = 0"
    by code_simp+
  have absent: "1 \<le> populations (snd (handleCountryFunction (offlineEnv 1700000000001)
                                         ''mobile'' ''Sheet1!B2'' signedInWorld))"
    and fresh: "populations (snd (handleCountryFunction (offlineEnv 1700000000001) ''mobile''
                          ''Sheet1!B2'' cacheWorld)) = 0"
    and stale: "1 \<le> populations (snd (handleCountryFunction (offlineEnv 1900000000000)
                                        ''mobile'' ''Sheet1!B2'' cacheWorld))"
    and staleT: "1 \<le> populations (snd (handleTypesFunction (offlineEnv 1900000000000)
                                         ''mobile'' ''Sheet1!B2'' cacheWorld))"
    and staleP: "1 \<le> populations (snd (handlePowerGridFunction (offlineEnv 1900000000000)
                                         ''mobile'' (JStr ''USA'') ''Sheet1!B2'' cacheWorld))"
    by code_simp+
  from one_population_per_lookup [of "offlineEnv 1700000000001" "''mobile''" "''Sheet1!B2''"
      signedInWorld "JStr ''USA''"]
    one_population_per_lookup [of "offlineEnv 1900000000000" "''mobile''" "''Sheet1!B2''"
      cacheWorld "JStr ''USA''"]
    start absent fresh stale staleT staleP
  show ?thesis by simp
qed

subsection \<open>Required parameters\<close>

text \<open>
  C10. A required parameter (the country of STATE_PROVINCE and POWER_GRID, the type of
  UNITS) that is falsy, not a string, or blank after trimming makes the handler throw
  \<open>invalidValue\<close> before anything else: the result is the same for every session and
  every workbook, and the state is returned as it was, so no request is made and no
  dataset is touched.
\<close>

theorem missing_parameter_invalidValue:
  assumes "falsy p \<or> \<not> typeofString p \<or> trim (asString p) = []"
  shows "handleStateProvinceFunction e apiName p address w
           = (Inl (CustomFunctionsError invalidValue
                     ''Country parameter is required and must be a non-empty string''), w)
       \<and> handlePowerGridFunction e apiName p address w
           = (Inl (CustomFunctionsError invalidValue
                     ''Country parameter is required and must be a non-empty string''), w)
       \<and> handleUnitsFunction e apiName p address w
           = (Inl (CustomFunctionsError invalidValue
                     ''Type parameter is required and must be a non-empty string''), w)"
  using assms
  by (simp add: handleStateProvinceFunction_def handlePowerGridFunction_def
        handleUnitsFunction_def catchA_def throwA_def handleCustomFunctionError_def)

theorem missing_parameter_invalidValue_witness:
  "handleStateProvinceFunction noCredentialsEnv ''mobile'' (JStr ''   '') ''Sheet1!B2'' signedOutWorld
     = (Inl (CustomFunctionsError invalidValue
               ''Country parameter is required and must be a non-empty string''), signedOutWorld)
   \<and> handlePowerGridFunction noCredentialsEnv ''mobile'' (JNum 7) ''Sheet1!B2'' signedOutWorld
     = (Inl (CustomFunctionsError invalidValue
               ''Country parameter is required and must be a non-empty string''), signedOutWorld)
   \<and> handleUnitsFunction noCredentialsEnv ''mobile'' (JStr []) ''Sheet1!B2'' signedOutWorld
     = (Inl (CustomFunctionsError invalidValue
               ''Type parameter is required and must be a non-empty string''), signedOutWorld)
   \<and> fst (handleUnitsFunction noCredentialsEnv ''mobile'' (JStr ''kWh'') ''Sheet1!B2'' signedOutWorld)
     = Inl (CustomFunctionsError notAvailable ''Enter your credentials in the task pane.'')"
proof -
  have blank: "trim (asString (JStr ''   '')) = []"
    by code_simp
  have unauth: "fst (handleUnitsFunction noCredentialsEnv ''mobile'' (JStr ''kWh'') ''Sheet1!B2'' signedOutWorld)
     = Inl (CustomFunctionsError notAvailable ''Enter your credentials in the task pane.'')"
    by code_simp
  from missing_parameter_invalidValue [of "JStr ''   ''" noCredentialsEnv "''mobile''" "''Sheet1!B2''" signedOutWorld]
    missing_parameter_invalidValue [of "JNum 7" noCredentialsEnv "''mobile''" "''Sheet1!B2''" signedOutWorld]
    missing_parameter_invalidValue [of "JStr []" noCredentialsEnv "''mobile''" "''Sheet1!B2''" signedOutWorld]
    blank unauth
  show ?thesis by (simp add: typeofString_def)
qed

subsection \<open>The units lookup\<close>

lemma quiet_catchA:
  assumes "quiet m" and "\<And>err. quiet (h err)"
  shows "quiet (catchA m h)"
  unfolding quiet_def
proof
  fix w
  from assms(1) have m: "populations (snd (m w)) = populations w"
    by (simp add: quiet_def)
  show "populations (snd (catchA m h w)) = populations w"
  proof (cases "m w")
    case (Pair r w1)
    show ?thesis
    proof (cases r)
      case (Inl err)
      from assms(2) have "populations (snd (h err w1)) = populations w1"
        by (simp add: quiet_def)
      with m Pair Inl show ?thesis by (simp add: catchA_def)
    next
      case (Inr x)
      with m Pair show ?thesis by (simp add: catchA_def)
    qed
  qed
qed

lemma sheetBlindI:
  assumes "\<And>w ss. map sheetName ss = map sheetName (sheets w) \<Longrightarrow>
             m (w\<lparr>sheets := ss\<rparr>) = (fst (m w), (snd (m w))\<lparr>sheets := ss\<rparr>)"
    and "\<And>w. sheets (snd (m w)) = sheets w"
  shows "sheetBlind m"
  using assms by (simp add: sheetBlind_def)

lemma sheetBlind_bindA:
  assumes m: "sheetBlind m" and f: "\<And>x. sheetBlind (f x)"
  shows "sheetBlind (bindA m f)"
proof (rule sheetBlindI)
  fix w :: world
  show "sheets (snd (bindA m f w)) = sheets w"
  proof (cases m f w rule: bindA_cases)
    case (stop err w1)
    with m show ?thesis by (simp add: sheetBlind_def) (metis snd_conv)
  next
    case (go x w1)
    from m go(1) have "sheets w1 = sheets w" by (simp add: sheetBlind_def) (metis snd_conv)
    moreover from f have "sheets (snd (f x w1)) = sheets w1" by (simp add: sheetBlind_def)
    ultimately show ?thesis using go(2) by simp
  qed
next
  fix w :: world and ss :: "sheet list"
  assume names: "map sheetName ss = map sheetName (sheets w)"
  obtain r w1 where mw: "m w = (r, w1)" by (cases "m w")
  from m names mw have mss: "m (w\<lparr>sheets := ss\<rparr>) = (r, w1\<lparr>sheets := ss\<rparr>)"
    and keep: "sheets w1 = sheets w"
    by (simp_all add: sheetBlind_def) (metis snd_conv)
  show "bindA m f (w\<lparr>sheets := ss\<rparr>) = (fst (bindA m f w), (snd (bindA m f w))\<lparr>sheets := ss\<rparr>)"
  proof (cases r)
    case (Inl err)
    with mw mss show ?thesis by (simp add: bindA_def)
  next
    case (Inr x)
    from names keep have "map sheetName ss = map sheetName (sheets w1)" by simp
    with f have "f x (w1\<lparr>sheets := ss\<rparr>) = (fst (f x w1), (snd (f x w1))\<lparr>sheets := ss\<rparr>)"
      by (simp add: sheetBlind_def)
    with Inr mw mss show ?thesis by (simp add: bindA_def)
  qed
qed


lemma sheetBlind_catchA:
  assumes m: "sheetBlind m" and h: "\<And>err. sheetBlind (h err)"
  shows "sheetBlind (catchA m h)"
proof (rule sheetBlindI)
  fix w :: world
  obtain r w1 where mw: "m w = (r, w1)" by (cases "m w")
  from m mw have keep: "sheets w1 = sheets w" by (simp add: sheetBlind_def) (metis snd_conv)
  show "sheets (snd (catchA m h w)) = sheets w"
  proof (cases r)
    case (Inl err)
    from h have "sheets (snd (h err w1)) = sheets w1" by (simp add: sheetBlind_def)
    with Inl mw keep show ?thesis by (simp add: catchA_def)
  next
    case (Inr x)
    with mw keep show ?thesis by (simp add: catchA_def)
  qed
next
  fix w :: world and ss :: "sheet list"
  assume names: "map sheetName ss = map sheetName (sheets w)"
  obtain r w1 where mw: "m w = (r, w1)" by (cases "m w")
  from m names mw have mss: "m (w\<lparr>sheets := ss\<rparr>) = (r, w1\<lparr>sheets := ss\<rparr>)"
    and keep: "sheets w1 = sheets w"
    by (simp_all add: sheetBlind_def) (metis snd_conv)
  show "catchA m h (w\<lparr>sheets := ss\<rparr>) = (fst (catchA m h w), (snd (catchA m h w))\<lparr>sheets := ss\<rparr>)"
  proof (cases r)
    case (Inr x)
    with mw mss show ?thesis by (simp add: catchA_def)
  next
    case (Inl err)
    from names keep have "map sheetName ss = map sheetName (sheets w1)" by simp
    with h have "h err (w1\<lparr>sheets := ss\<rparr>) = (fst (h err w1), (snd (h err w1))\<lparr>sheets := ss\<rparr>)"
      by (simp add: sheetBlind_def)
    with Inl mw mss show ?thesis by (simp add: catchA_def)
  qed
qed

lemma sheetBlind_throwA: "sheetBlind (throwA err)"
  by (simp add: sheetBlind_def throwA_def)

lemma sheetBlind_returnA: "sheetBlind (returnA x)"
  by (simp add: sheetBlind_def returnA_def)

lemma sheetBlind_liftR: "sheetBlind (liftR r)"
  by (simp add: sheetBlind_def liftR_def)

lemma sheetBlind_emit: "sheetBlind (emit ev)"
  by (simp add: sheetBlind_def emit_def)

lemma sheetBlind_ensureClient: "sheetBlind (ensureClient e)"
  by (simp add: sheetBlind_def ensureClient_def)

lemma sheetBlind_handleCustomFunctionError: "sheetBlind (handleCustomFunctionError err d)"
  by (simp add: handleCustomFunctionError_def sheetBlind_throwA split: error.splits)

lemma findSheet_None_names: "(findSheet n ss = None) = (n \<notin> set (map sheetName ss))"
  by (induction ss) (auto simp add: findSheet_def)

lemma sheetExists_names:
  "map sheetName ss = map sheetName (sheets w) \<Longrightarrow> sheetExists (w\<lparr>sheets := ss\<rparr>) n = sheetExists w n"
  by (simp add: sheetExists_def findSheet_None_names)

lemma sheetBlind_setListValidation: "sheetBlind (setListValidation a vs t m)"
proof (rule sheetBlindI)
  fix w :: world
  show "sheets (snd (setListValidation a vs t m w)) = sheets w"
    by (simp add: setListValidation_def applyListValidation_def emit_def split: sum.splits)
next
  fix w :: world and ss :: "sheet list"
  assume names: "map sheetName ss = map sheetName (sheets w)"
  have "getTargetCell (w\<lparr>sheets := ss\<rparr>) a = getTargetCell w a"
    by (simp add: getTargetCell_def Let_def sheetExists_names [OF names])
  then show "setListValidation a vs t m (w\<lparr>sheets := ss\<rparr>)
        = (fst (setListValidation a vs t m w), (snd (setListValidation a vs t m w))\<lparr>sheets := ss\<rparr>)"
    by (simp add: setListValidation_def applyListValidation_def emit_def split: sum.splits)
qed

lemma sheetBlind_fetchUnits: "sheetBlind (fetchUnits e n t)"
  unfolding fetchUnits_def
  by (intro sheetBlind_catchA sheetBlind_throwA)
     (auto intro!: sheetBlind_bindA sheetBlind_emit sheetBlind_throwA sheetBlind_returnA
        split: option.splits promise.splits jsval.splits response.splits error.splits)

lemma sheetBlind_handleUnitsFunction: "sheetBlind (handleUnitsFunction e apiName type address)"
  unfolding handleUnitsFunction_def applyUnitsValidation_def
  by (intro sheetBlind_catchA sheetBlind_handleCustomFunctionError)
     (auto intro!: sheetBlind_bindA sheetBlind_ensureClient sheetBlind_liftR sheetBlind_fetchUnits
        sheetBlind_setListValidation sheetBlind_returnA sheetBlind_throwA)


lemma API_CLASS_MAP_valid:
  "n \<in> set VALID_API_NAMES \<Longrightarrow> \<exists>c. map_of API_CLASS_MAP n = Some c"
  by (auto simp add: VALID_API_NAMES_def API_CLASS_MAP_def)

lemma fetchUnits_remoteCalls:
  assumes "map_of API_CLASS_MAP n = Some c"
  shows "remoteCalls (snd (fetchUnits e n t w)) = remoteCalls w @ [GetUnits c t]"
  using assms
  by (simp add: fetchUnits_def catchA_def bindA_def emit_def throwA_def returnA_def
        remoteCalls_def split: promise.splits response.splits jsval.splits error.splits)

lemma setListValidation_remoteCalls:
  "remoteCalls (snd (setListValidation a vs t m w)) = remoteCalls w"
  by (simp add: setListValidation_def applyListValidation_def emit_def remoteCalls_def
        split: sum.splits)

lemma setListValidation_remoteCalls_res:
  "setListValidation a vs t m w = (r, w1) \<Longrightarrow> remoteCalls w1 = remoteCalls w"
  using setListValidation_remoteCalls [of a vs t m w] by simp

lemma handleCustomFunctionError_world: "snd (handleCustomFunctionError err d w) = w"
  by (simp add: handleCustomFunctionError_def throwA_def split: error.splits)

lemma catchA_handler_world:
  "snd (catchA m (\<lambda>err. handleCustomFunctionError err d) w) = snd (m w)"
  by (cases "m w") (simp add: catchA_def handleCustomFunctionError_world split: sum.splits)

lemma ensureClient_cases:
  obtains (refused) "\<not> clientInstance w" "\<not> credentials e"
      "ensureClient e w = (Inl (CustomFunctionsError notAvailable
                                  ''Enter your credentials in the task pane.''), w)"
  | (ready) "clientInstance w \<or> credentials e"
      "ensureClient e w = (Inr (), w\<lparr>clientInstance := True\<rparr>)"
  by (cases "clientInstance w"; cases "credentials e") (auto simp add: ensureClient_def)

lemma handleUnitsFunction_remoteCalls:
  "remoteCalls (snd (handleUnitsFunction e apiName type address w)) =
     remoteCalls w @
       (if (clientInstance w \<or> credentials e)
           \<and> \<not> (falsy type \<or> \<not> typeofString type \<or> trim (asString type) = [])
           \<and> trim (toLowerCase apiName) \<in> set VALID_API_NAMES
        then [GetUnits (the (map_of API_CLASS_MAP (trim (toLowerCase apiName))))
                (trim (asString type))]
        else [])"
proof (cases "falsy type \<or> \<not> typeofString type \<or> trim (asString type) = []")
  case True
  then have "handleUnitsFunction e apiName type address w
           = (Inl (CustomFunctionsError invalidValue
                     ''Type parameter is required and must be a non-empty string''), w)"
    by (simp add: handleUnitsFunction_def catchA_def throwA_def handleCustomFunctionError_def)
  with True show ?thesis by simp
next
  case typeOk: False
  let ?w1 = "w\<lparr>clientInstance := True\<rparr>"
  show ?thesis
  proof (cases e w rule: ensureClient_cases)
    case refused
    with typeOk show ?thesis
      by (simp add: handleUnitsFunction_def catchA_handler_world bindA_def)
  next
    case ready
    show ?thesis
    proof (cases "trim (toLowerCase apiName) \<in> set VALID_API_NAMES")
      case False
      then have "\<exists>err. validateApiName apiName = Inl err"
        by (simp add: validateApiName_def)
      with typeOk ready False show ?thesis
        by (auto simp add: handleUnitsFunction_def catchA_handler_world bindA_def liftR_def
              remoteCalls_def)
    next
      case True
      then have v: "validateApiName apiName = Inr (trim (toLowerCase apiName))"
        by (simp add: validateApiName_def)
      from API_CLASS_MAP_valid [OF True] obtain c
        where c: "map_of API_CLASS_MAP (trim (toLowerCase apiName)) = Some c" by blast
      have "remoteCalls (snd (handleUnitsFunction e apiName type address w))
              = remoteCalls ?w1 @ [GetUnits c (trim (asString type))]"
        using typeOk ready v fetchUnits_remoteCalls [OF c, of e "trim (asString type)" ?w1]
        by (cases "fetchUnits e (trim (toLowerCase apiName)) (trim (asString type)) ?w1")
           (auto simp add: handleUnitsFunction_def catchA_handler_world bindA_def liftR_def
              applyUnitsValidation_def returnA_def
              dest: setListValidation_remoteCalls_res
              split: sum.splits prod.splits)
      with typeOk ready True c show ?thesis
        by (simp add: remoteCalls_def)
    qed
  qed
qed


lemma fetchUnits_clientInstance:
  "clientInstance (snd (fetchUnits e n t w)) = clientInstance w"
  by (simp add: fetchUnits_def catchA_def bindA_def emit_def throwA_def returnA_def
        split: option.splits promise.splits response.splits jsval.splits error.splits)

lemma setListValidation_clientInstance:
  "setListValidation a vs t m w = (r, w1) \<Longrightarrow> clientInstance w1 = clientInstance w"
  by (auto simp add: setListValidation_def applyListValidation_def emit_def split: sum.splits)

lemma handleUnitsFunction_clientInstance:
  assumes "clientInstance w"
  shows "clientInstance (snd (handleUnitsFunction e apiName type address w))"
proof -
  from assms have ec: "ensureClient e w = (Inr (), w)"
    by (simp add: ensureClient_def)
  show ?thesis
    using assms ec fetchUnits_clientInstance [of e "trim (toLowerCase apiName)" "trim (asString type)" w]
    by (cases "fetchUnits e (trim (toLowerCase apiName)) (trim (asString type)) w")
       (auto simp add: handleUnitsFunction_def catchA_handler_world bindA_def liftR_def
          applyUnitsValidation_def returnA_def throwA_def validateApiName_def Let_def
          dest: setListValidation_clientInstance
          split: sum.splits prod.splits if_splits)
qed

lemma quiet_fetchUnits: "quiet (fetchUnits e n t)"
  by (simp add: quiet_def fetchUnits_def catchA_def bindA_def emit_def throwA_def returnA_def
        populations_def
        split: option.splits promise.splits response.splits jsval.splits error.splits)

lemma quiet_if: "quiet a \<Longrightarrow> quiet b \<Longrightarrow> quiet (if c then a else b)"
  by simp

lemma quiet_handleUnitsFunction: "quiet (handleUnitsFunction e apiName type address)"
  unfolding handleUnitsFunction_def applyUnitsValidation_def
  apply (rule quiet_catchA)
   apply (rule quiet_if)
    apply (rule quiet_throwA)
   apply (rule quiet_bindA [OF quiet_ensureClient])
   apply (rule quiet_bindA [OF quiet_liftR])
   apply (rule quiet_bindA [OF quiet_fetchUnits])
   apply (rule quiet_bindA [OF quiet_setListValidation])
   apply (rule quiet_returnA)
  apply (rule quiet_handleCustomFunctionError)
  done


text \<open>
  C8. The UNITS lookup leaves every worksheet as it was and runs no population routine;
  its result does not depend on what the worksheets hold (only on which names exist,
  for the target cell); the requests it makes are exactly one \<open>getUnits\<close> call for the
  normalised category and the trimmed type when the session, the type and the category
  pass their checks, and none otherwise; two calls in a row make two requests.
\<close>

theorem units_lookup_uncached:
  "sheets (snd (handleUnitsFunction e apiName type address w)) = sheets w
   \<and> populations (snd (handleUnitsFunction e apiName type address w)) = populations w
   \<and> (map sheetName ss = map sheetName (sheets w) \<longrightarrow>
        handleUnitsFunction e apiName type address (w\<lparr>sheets := ss\<rparr>)
          = (fst (handleUnitsFunction e apiName type address w),
             (snd (handleUnitsFunction e apiName type address w))\<lparr>sheets := ss\<rparr>))
   \<and> remoteCalls (snd (handleUnitsFunction e apiName type address w)) =
        remoteCalls w @
          (if (clientInstance w \<or> credentials e)
              \<and> \<not> (falsy type \<or> \<not> typeofString type \<or> trim (asString type) = [])
              \<and> trim (toLowerCase apiName) \<in> set VALID_API_NAMES
           then [GetUnits (the (map_of API_CLASS_MAP (trim (toLowerCase apiName))))
                   (trim (asString type))]
           else [])
   \<and> ((clientInstance w \<or> credentials e)
        \<and> \<not> (falsy type \<or> \<not> typeofString type \<or> trim (asString type) = [])
        \<and> \<not> (falsy type2 \<or> \<not> typeofString type2 \<or> trim (asString type2) = [])
        \<and> trim (toLowerCase apiName) \<in> set VALID_API_NAMES \<longrightarrow>
        remoteCalls (snd (handleUnitsFunction e apiName type2 address2
                            (snd (handleUnitsFunction e apiName type address w)))) =
          remoteCalls w @
            [GetUnits (the (map_of API_CLASS_MAP (trim (toLowerCase apiName))))
               (trim (asString type)),
             GetUnits (the (map_of API_CLASS_MAP (trim (toLowerCase apiName))))
               (trim (asString type2))])"
proof (intro conjI impI)
  from sheetBlind_handleUnitsFunction [of e apiName type address]
  show "sheets (snd (handleUnitsFunction e apiName type address w)) = sheets w"
    by (simp add: sheetBlind_def)
next
  from quiet_handleUnitsFunction [of e apiName type address]
  show "populations (snd (handleUnitsFunction e apiName type address w)) = populations w"
    by (simp add: quiet_def)
next
  assume "map sheetName ss = map sheetName (sheets w)"
  with sheetBlind_handleUnitsFunction [of e apiName type address]
  show "handleUnitsFunction e apiName type address (w\<lparr>sheets := ss\<rparr>)
          = (fst (handleUnitsFunction e apiName type address w),
             (snd (handleUnitsFunction e apiName type address w))\<lparr>sheets := ss\<rparr>)"
    by (simp add: sheetBlind_def)
next
  show "remoteCalls (snd (handleUnitsFunction e apiName type address w)) =
        remoteCalls w @
          (if (clientInstance w \<or> credentials e)
              \<and> \<not> (falsy type \<or> \<not> typeofString type \<or> trim (asString type) = [])
              \<and> trim (toLowerCase apiName) \<in> set VALID_API_NAMES
           then [GetUnits (the (map_of API_CLASS_MAP (trim (toLowerCase apiName))))
                   (trim (asString type))]
           else [])"
    by (rule handleUnitsFunction_remoteCalls)
next
  assume g: "(clientInstance w \<or> credentials e)
        \<and> \<not> (falsy type \<or> \<not> typeofString type \<or> trim (asString type) = [])
        \<and> \<not> (falsy type2 \<or> \<not> typeofString type2 \<or> trim (asString type2) = [])
        \<and> trim (toLowerCase apiName) \<in> set VALID_API_NAMES"
  let ?w1 = "snd (handleUnitsFunction e apiName type address w)"
  from g have "clientInstance ?w1 \<or> credentials e"
    using handleUnitsFunction_clientInstance [of w e apiName type address] by blast
  with g handleUnitsFunction_remoteCalls [of e apiName type2 address2 ?w1]
    handleUnitsFunction_remoteCalls [of e apiName type address w]
  show "remoteCalls (snd (handleUnitsFunction e apiName type2 address2 ?w1)) =
          remoteCalls w @
            [GetUnits (the (map_of API_CLASS_MAP (trim (toLowerCase apiName))))
               (trim (asString type)),
             GetUnits (the (map_of API_CLASS_MAP (trim (toLowerCase apiName))))
               (trim (asString type2))]"
    by simp
qed

theorem units_lookup_uncached_witness:
  "remoteCalls (snd (handleUnitsFunction unitsEnv ''Mobile'' (JStr ''kWh'') ''Sheet1!C3''
                       (snd (handleUnitsFunction unitsEnv ''Mobile'' (JStr '' litre '')
                               ''Sheet1!C2'' cacheWorld))))
     = [GetUnits Mobile ''litre'', GetUnits Mobile ''kWh'']
   \<and> sheets (snd (handleUnitsFunction unitsEnv ''Mobile'' (JStr '' litre '') ''Sheet1!C2''
                     cacheWorld)) = sheets cacheWorld
   \<and> fst (handleUnitsFunction unitsEnv ''Mobile'' (JStr '' litre '') ''Sheet1!C2''
             (cacheWorld\<lparr>sheets := map (\<lambda>s. s\<lparr>cells := []\<rparr>) (sheets cacheWorld)\<rparr>))
       = fst (handleUnitsFunction unitsEnv ''Mobile'' (JStr '' litre '') ''Sheet1!C2'' cacheWorld)"
proof -
  have guard: "(clientInstance cacheWorld \<or> credentials unitsEnv)
        \<and> \<not> (falsy (JStr '' litre '') \<or> \<not> typeofString (JStr '' litre '')
              \<or> trim (asString (JStr '' litre '')) = [])
        \<and> \<not> (falsy (JStr ''kWh'') \<or> \<not> typeofString (JStr ''kWh'')
              \<or> trim (asString (JStr ''kWh'')) = [])
        \<and> trim (toLowerCase ''Mobile'') \<in> set VALID_API_NAMES"
    by code_simp
  have cls: "the (map_of API_CLASS_MAP (trim (toLowerCase ''Mobile''))) = Mobile"
    and t1: "trim (asString (JStr '' litre '')) = ''litre''"
    and t2: "trim (asString (JStr ''kWh'')) = ''kWh''"
    and r0: "remoteCalls cacheWorld = []"
    by code_simp+
  have names: "map sheetName (map (\<lambda>s. s\<lparr>cells := []\<rparr>) (sheets cacheWorld))
                 = map sheetName (sheets cacheWorld)"
    by (simp add: comp_def)
  from units_lookup_uncached [of unitsEnv "''Mobile''" "JStr '' litre ''" "''Sheet1!C2''"
      cacheWorld "map (\<lambda>s. s\<lparr>cells := []\<rparr>) (sheets cacheWorld)" "JStr ''kWh''" "''Sheet1!C3''"]
    guard cls t1 t2 r0 names
  show ?thesis by simp
qed

subsection \<open>Empty option lists\<close>

lemma areaDataLoop_find:
  "areaDataLoop q a col rows =
     (case find (areaRowMatches q a) rows of
        None \<Rightarrow> []
      | Some row \<Rightarrow>
          (case rowText row col of
             None \<Rightarrow> []
           | Some d \<Rightarrow> if d = [] then []
                       else filter (\<lambda>item. item \<noteq> []) (map trim (split (CHR '','') d))))"
  by (induction rows) (auto simp add: areaRowMatches_def Let_def split: option.splits)

lemma writeAreaDataToSheet_trace: "trace (snd (writeAreaDataToSheet e m w)) = trace w"
  using writeAreaDataToSheet_effect [of e m w] by auto

lemma loadAndPopulateAreaData_validations:
  "validations (snd (loadAndPopulateAreaData e w)) = validations w"
  by (simp add: loadAndPopulateAreaData_def bindA_def emit_def fetchAllAreaData_def Let_def
        writeAreaDataToSheet_trace validations_def API_AREA_CONFIGS_def)

lemma area_ready:
  "\<exists>w1. bindA (refreshSheetIfStale e AREA_DATA_SHEET_NAME (loadAndPopulateAreaData e))
           (\<lambda>_. bindA (ensureAreaDataSheet e) (\<lambda>_. k)) w = k w1
        \<and> findSheet AREA_DATA_SHEET_NAME (sheets w1) \<noteq> None
        \<and> validations w1 = validations w"
proof -
  let ?m = "bindA (refreshSheetIfStale e AREA_DATA_SHEET_NAME (loadAndPopulateAreaData e))
           (\<lambda>_. bindA (ensureAreaDataSheet e) (\<lambda>_. k))"
  have load: "\<exists>w1. loadAndPopulateAreaData e v = (Inr (), w1)
        \<and> findSheet AREA_DATA_SHEET_NAME (sheets w1) \<noteq> None
        \<and> validations w1 = validations v" for v
    using loadAndPopulateAreaData_effect [of e v] loadAndPopulateAreaData_validations [of e v]
    by auto
  show ?thesis
  proof (cases "sheetExists w AREA_DATA_SHEET_NAME")
    case False
    then have r: "refreshSheetIfStale e AREA_DATA_SHEET_NAME (loadAndPopulateAreaData e) w = (Inr False, w)"
      by (simp add: refreshSheetIfStale_def)
    from False have ne: "\<not> areaDataSheetExists w"
      by (simp add: sheetExists_def areaDataSheetExists_def)
    from load [of w] obtain w1
      where l: "loadAndPopulateAreaData e w = (Inr (), w1)"
        and ex: "findSheet AREA_DATA_SHEET_NAME (sheets w1) \<noteq> None"
        and v: "validations w1 = validations w"
      by blast
    have "?m w = k w1"
      using r ne l by (simp add: bindA_def ensureAreaDataSheet_def)
    with ex v show ?thesis by blast
  next
    case True
    show ?thesis
    proof (cases "isSheetDataStale e w AREA_DATA_SHEET_NAME")
      case False
      with True have r: "refreshSheetIfStale e AREA_DATA_SHEET_NAME (loadAndPopulateAreaData e) w = (Inr False, w)"
        by (simp add: refreshSheetIfStale_def)
      from True have ex: "areaDataSheetExists w"
        by (simp add: sheetExists_def areaDataSheetExists_def)
      have "?m w = k w"
        using r ex by (simp add: bindA_def ensureAreaDataSheet_def)
      with ex show ?thesis by (auto simp add: areaDataSheetExists_def)
    next
      case stale: True
      obtain wd where d: "deleteSheetIfExists AREA_DATA_SHEET_NAME w = (Inr (), wd)"
        and vd: "validations wd = validations w"
        using deleteSheetIfExists_effect [of AREA_DATA_SHEET_NAME w]
        by (auto simp add: validations_def)
      from load [of wd] obtain w1
        where l: "loadAndPopulateAreaData e wd = (Inr (), w1)"
          and ex: "findSheet AREA_DATA_SHEET_NAME (sheets w1) \<noteq> None"
          and v: "validations w1 = validations wd"
        by blast
      have r: "refreshSheetIfStale e AREA_DATA_SHEET_NAME (loadAndPopulateAreaData e) w = (Inr True, w1)"
        using True stale d l by (simp add: refreshSheetIfStale_def bindA_def returnA_def)
      have "?m w = k w1"
        using r ex by (auto simp add: bindA_def ensureAreaDataSheet_def areaDataSheetExists_def)
      with ex v vd show ?thesis by auto
    qed
  qed
qed


text \<open>The steps every area handler starts with, followed by \<open>k\<close>.\<close>

lemma area_chain_ready:
  assumes session: "clientInstance w \<or> credentials e"
    and name: "validateApiName apiName = Inr n"
  shows "\<exists>w1. bindA (ensureClient e) (\<lambda>_.
                bindA (liftR (validateApiName apiName)) (\<lambda>normalizedApiName.
                bindA (refreshSheetIfStale e AREA_DATA_SHEET_NAME (loadAndPopulateAreaData e)) (\<lambda>_.
                bindA (ensureAreaDataSheet e) (\<lambda>_. k normalizedApiName)))) w = k n w1
           \<and> findSheet AREA_DATA_SHEET_NAME (sheets w1) \<noteq> None
           \<and> validations w1 = validations w"
proof -
  let ?w0 = "w\<lparr>clientInstance := True\<rparr>"
  from session have ec: "ensureClient e w = (Inr (), ?w0)"
    by (cases e w rule: ensureClient_cases) auto
  from area_ready [of e "k n" ?w0] obtain w1
    where run: "bindA (refreshSheetIfStale e AREA_DATA_SHEET_NAME (loadAndPopulateAreaData e))
                  (\<lambda>_. bindA (ensureAreaDataSheet e) (\<lambda>_. k n)) ?w0 = k n w1"
      and ex: "findSheet AREA_DATA_SHEET_NAME (sheets w1) \<noteq> None"
      and v: "validations w1 = validations ?w0"
    by blast
  have "bindA (ensureClient e) (\<lambda>_.
                bindA (liftR (validateApiName apiName)) (\<lambda>normalizedApiName.
                bindA (refreshSheetIfStale e AREA_DATA_SHEET_NAME (loadAndPopulateAreaData e)) (\<lambda>_.
                bindA (ensureAreaDataSheet e) (\<lambda>_. k normalizedApiName)))) w = k n w1"
    using ec name run by (simp add: bindA_def [of "ensureClient e"] bindA_def [of "liftR (Inr n)"] liftR_def)
  moreover have "validations w1 = validations w"
    using v by (simp add: validations_def)
  ultimately show ?thesis using ex by blast
qed

lemma area_lookup_empty:
  fixes look :: "string \<Rightarrow> string list action"
    and derive :: "sheet \<Rightarrow> string \<Rightarrow> string list"
    and e :: env and apiName address title message d :: string and emptyErr :: error
    and H :: "string action"
  defines "H \<equiv>
    catchA
      (bindA (ensureClient e) (\<lambda>_.
       bindA (liftR (validateApiName apiName)) (\<lambda>normalizedApiName.
       bindA (refreshSheetIfStale e AREA_DATA_SHEET_NAME (loadAndPopulateAreaData e)) (\<lambda>_.
       bindA (ensureAreaDataSheet e) (\<lambda>_.
       bindA (look normalizedApiName) (\<lambda>xs.
         if xs = [] then throwA emptyErr
         else bindA (setListValidation address xs title message) (\<lambda>_. returnA [])))))))
      (\<lambda>err. handleCustomFunctionError err d)"
  assumes reads: "\<And>m v sh. findSheet AREA_DATA_SHEET_NAME (sheets v) = Some sh \<Longrightarrow>
                    look m v = (Inr (derive sh m), v)"
    and session: "clientInstance w \<or> credentials e"
    and name: "validateApiName apiName = Inr n"
    and final: "findSheet AREA_DATA_SHEET_NAME (sheets (snd (H w))) = Some sh"
    and empty: "derive sh n = []"
  shows "fst (H w) = fst (handleCustomFunctionError emptyErr d w)
         \<and> validations (snd (H w)) = validations w"
proof -
  define k :: "string \<Rightarrow> string action" where "k = (\<lambda>normalizedApiName.
       bindA (look normalizedApiName) (\<lambda>xs.
         if xs = [] then throwA emptyErr
         else bindA (setListValidation address xs title message) (\<lambda>_. returnA [])))"
  from area_chain_ready [OF session name, of k] obtain w1
    where run: "bindA (ensureClient e) (\<lambda>_.
                bindA (liftR (validateApiName apiName)) (\<lambda>normalizedApiName.
                bindA (refreshSheetIfStale e AREA_DATA_SHEET_NAME (loadAndPopulateAreaData e)) (\<lambda>_.
                bindA (ensureAreaDataSheet e) (\<lambda>_. k normalizedApiName)))) w = k n w1"
      and ex: "findSheet AREA_DATA_SHEET_NAME (sheets w1) \<noteq> None"
      and v: "validations w1 = validations w"
    by blast
  then have Hk: "H w = catchA (k n) (\<lambda>err. handleCustomFunctionError err d) w1"
    by (simp add: H_def k_def catchA_def)
  from ex obtain sh1 where sh1: "findSheet AREA_DATA_SHEET_NAME (sheets w1) = Some sh1"
    by blast
  from reads [OF sh1] have look: "look n w1 = (Inr (derive sh1 n), w1)" .
  have err_any: "fst (handleCustomFunctionError emptyErr d w1)
                   = fst (handleCustomFunctionError emptyErr d w)"
    by (simp add: handleCustomFunctionError_def throwA_def split: error.splits)
  show ?thesis
  proof (cases "derive sh1 n = []")
    case True
    with look have "k n w1 = (Inl emptyErr, w1)"
      by (simp add: k_def bindA_def throwA_def)
    with Hk have "H w = (fst (handleCustomFunctionError emptyErr d w1), w1)"
      by (simp add: catchA_def handleCustomFunctionError_def throwA_def split: error.splits)
    with v err_any show ?thesis by simp
  next
    case False
    with look have kn: "k n w1 = bindA (setListValidation address (derive sh1 n) title message)
                                 (\<lambda>_. returnA []) w1"
      by (simp add: k_def bindA_def)
    have "sheetBlind (catchA (bindA (setListValidation address (derive sh1 n) title message)
                                 (\<lambda>_. returnA ([] :: string)))
                        (\<lambda>err. handleCustomFunctionError err d))"
      by (intro sheetBlind_catchA sheetBlind_bindA sheetBlind_setListValidation
            sheetBlind_returnA sheetBlind_handleCustomFunctionError)
    then have "sheets (snd (catchA (bindA (setListValidation address (derive sh1 n) title message)
                                 (\<lambda>_. returnA ([] :: string)))
                        (\<lambda>err. handleCustomFunctionError err d) w1))
            = sheets w1"
      by (simp add: sheetBlind_def)
    with Hk kn have "sheets (snd (H w)) = sheets w1"
      by (simp add: catchA_def)
    with final sh1 have "sh1 = sh" by simp
    with empty False show ?thesis by simp
  qed
qed

lemma getAreaDataForCountry_reads:
  "findSheet AREA_DATA_SHEET_NAME (sheets v) = Some sh \<Longrightarrow>
     getAreaDataForCountry m a col v = (Inr (areaDataIn (usedRangeValues (cells sh)) m a col), v)"
  by (simp add: getAreaDataForCountry_def)

lemma getAlpha3CodesForApi_reads:
  "findSheet AREA_DATA_SHEET_NAME (sheets v) = Some sh \<Longrightarrow>
     getAlpha3CodesForApi m v = (Inr (alpha3CodesIn (usedRangeValues (cells sh)) m), v)"
  by (simp add: getAlpha3CodesForApi_def)

lemma handlePowerGridFunction_empty:
  assumes valid: "\<not> (falsy country \<or> \<not> typeofString country \<or> trim (asString country) = [])"
    and session: "clientInstance w \<or> credentials e"
    and name: "validateApiName apiName = Inr n"
    and final: "findSheet AREA_DATA_SHEET_NAME
                  (sheets (snd (handlePowerGridFunction e apiName country address w))) = Some sh"
    and empty: "areaDataIn (usedRangeValues (cells sh)) n (toUpperCase (trim (asString country)))
                  AREA_COLUMN_powerGrid = []"
  shows "fst (handlePowerGridFunction e apiName country address w)
           = Inl (CustomFunctionsError notAvailable
                    (''No power grid data available for '' @ asString country))
         \<and> validations (snd (handlePowerGridFunction e apiName country address w)) = validations w"
  using area_lookup_empty [where look = "\<lambda>m. getAreaDataForCountry m
            (toUpperCase (trim (asString country))) AREA_COLUMN_powerGrid"
          and derive = "\<lambda>sh m. areaDataIn (usedRangeValues (cells sh)) m
            (toUpperCase (trim (asString country))) AREA_COLUMN_powerGrid"
          and emptyErr = "CustomFunctionsError notAvailable
               (''No power grid data available for '' @ asString country)"
          and address = address and title = "''Invalid Power Grid''"
          and message = "''Please select a valid power grid from the dropdown list''"
          and d = "''Failed to set up power grid validation''" and sh = sh,
          OF getAreaDataForCountry_reads session name]
    valid final empty
  by (simp add: handlePowerGridFunction_def handleCustomFunctionError_def throwA_def)


lemma handleStateProvinceFunction_empty:
  assumes valid: "\<not> (falsy country \<or> \<not> typeofString country \<or> trim (asString country) = [])"
    and session: "clientInstance w \<or> credentials e"
    and name: "validateApiName apiName = Inr n"
    and final: "findSheet AREA_DATA_SHEET_NAME
                  (sheets (snd (handleStateProvinceFunction e apiName country address w))) = Some sh"
    and empty: "areaDataIn (usedRangeValues (cells sh)) n (toUpperCase (trim (asString country)))
                  AREA_COLUMN_stateProvince = []"
  shows "fst (handleStateProvinceFunction e apiName country address w)
           = Inl (CustomFunctionsError notAvailable
                    (''No stateProvince data available for '' @ asString country))
         \<and> validations (snd (handleStateProvinceFunction e apiName country address w))
             = validations w"
  using area_lookup_empty [where look = "\<lambda>m. getAreaDataForCountry m
            (toUpperCase (trim (asString country))) AREA_COLUMN_stateProvince"
          and derive = "\<lambda>sh m. areaDataIn (usedRangeValues (cells sh)) m
            (toUpperCase (trim (asString country))) AREA_COLUMN_stateProvince"
          and emptyErr = "CustomFunctionsError notAvailable
               (''No stateProvince data available for '' @ asString country)"
          and address = address and title = "''Invalid State/Province''"
          and message = "''Please select a valid state/province from the dropdown list''"
          and d = "''Failed to set up state/province validation''" and sh = sh,
          OF getAreaDataForCountry_reads session name]
    valid final empty
  by (simp add: handleStateProvinceFunction_def handleCustomFunctionError_def throwA_def)

lemma handleCountryFunction_empty:
  assumes session: "clientInstance w \<or> credentials e"
    and name: "validateApiName apiName = Inr n"
    and final: "findSheet AREA_DATA_SHEET_NAME
                  (sheets (snd (handleCountryFunction e apiName address w))) = Some sh"
    and empty: "alpha3CodesIn (usedRangeValues (cells sh)) n = []"
  shows "fst (handleCountryFunction e apiName address w)
           = Inl (CustomFunctionsError notAvailable
                    (''Failed to set up country validation: No countries found for API: ''
                       @ apiName))
         \<and> validations (snd (handleCountryFunction e apiName address w)) = validations w"
  using area_lookup_empty [where look = getAlpha3CodesForApi
          and derive = "\<lambda>sh m. alpha3CodesIn (usedRangeValues (cells sh)) m"
          and emptyErr = "JsError (''No countries found for API: '' @ apiName)"
          and address = address and title = "''Invalid Country''"
          and message = "''Please select a valid country code from the dropdown list''"
          and d = "''Failed to set up country validation''" and sh = sh,
          OF getAlpha3CodesForApi_reads session name]
    final empty
  by (simp add: handleCountryFunction_def handleCustomFunctionError_def throwA_def)

lemma handleUnitsFunction_empty:
  assumes valid: "\<not> (falsy type \<or> \<not> typeofString type \<or> trim (asString type) = [])"
    and session: "clientInstance w \<or> credentials e"
    and name: "validateApiName apiName = Inr n"
    and cls: "map_of API_CLASS_MAP n = Some c"
    and empty: "getUnits e c (trim (asString type)) = Resolved (Response (JArr []))"
  shows "fst (handleUnitsFunction e apiName type address w)
           = Inl (CustomFunctionsError notAvailable
                    (''Failed to set up units validation: Failed to fetch units: ''
                       @ ''No units found for type: '' @ trim (asString type)))
         \<and> validations (snd (handleUnitsFunction e apiName type address w)) = validations w"
proof -
  from session have ec: "ensureClient e w = (Inr (), w\<lparr>clientInstance := True\<rparr>)"
    by (cases e w rule: ensureClient_cases) auto
  have f: "fetchUnits e n (trim (asString type)) (w\<lparr>clientInstance := True\<rparr>)
             = (Inl (JsError (''Failed to fetch units: '' @ ''No units found for type: ''
                                @ trim (asString type))),
                w\<lparr>clientInstance := True,
                   trace := trace w @ [GetUnits c (trim (asString type))]\<rparr>)"
    using cls empty
    by (simp add: fetchUnits_def catchA_def bindA_def emit_def throwA_def)
  show ?thesis
    using valid ec name f
    by (simp add: handleUnitsFunction_def catchA_def bindA_def liftR_def
          handleCustomFunctionError_def throwA_def validations_def)
qed

lemma areaDataIn_no_row:
  assumes "find (areaRowMatches (mapApiNameForAreaData n) a) (drop 1 values) = None"
  shows "areaDataIn values n a col = []"
  using assms by (simp add: areaDataIn_def areaDataLoop_find)

lemma areaDataIn_empty_cell:
  assumes "find (areaRowMatches (mapApiNameForAreaData n) a) (drop 1 values) = Some row"
    and "rowText row col = None \<or> rowText row col = Some []"
  shows "areaDataIn values n a col = []"
  using assms by (auto simp add: areaDataIn_def areaDataLoop_find)


text \<open>
  The handlers that test the list they derive: POWER_GRID, STATE_PROVINCE, COUNTRY and
  UNITS fail with a \<open>notAvailable\<close> error and set no validation rule when that list is
  empty. The message names the country as it was passed (POWER_GRID, STATE_PROVINCE), the
  category as it was passed (COUNTRY) or the trimmed type (UNITS), and nothing else of
  the request. The derived list is what the handler reads from the area dataset as the
  call leaves it (the handler ensures the dataset first and does not change it
  afterwards); for UNITS it is the empty \<open>units\<close> array of the response. In particular
  the power-grid (or state) list is empty when no row matches the group and the country,
  and when the first matching row has no text in the column.
\<close>

theorem empty_option_list_notAvailable:
  "(\<not> (falsy country \<or> \<not> typeofString country \<or> trim (asString country) = [])
      \<and> (clientInstance w \<or> credentials e)
      \<and> validateApiName apiName = Inr n
      \<and> findSheet AREA_DATA_SHEET_NAME
            (sheets (snd (handlePowerGridFunction e apiName country address w))) = Some shP
      \<and> areaDataIn (usedRangeValues (cells shP)) n (toUpperCase (trim (asString country)))
            AREA_COLUMN_powerGrid = []
    \<longrightarrow> fst (handlePowerGridFunction e apiName country address w)
           = Inl (CustomFunctionsError notAvailable
                    (''No power grid data available for '' @ asString country))
        \<and> validations (snd (handlePowerGridFunction e apiName country address w))
           = validations w)
   \<and> (\<not> (falsy country \<or> \<not> typeofString country \<or> trim (asString country) = [])
      \<and> (clientInstance w \<or> credentials e)
      \<and> validateApiName apiName = Inr n
      \<and> findSheet AREA_DATA_SHEET_NAME
            (sheets (snd (handleStateProvinceFunction e apiName country address w))) = Some shS
      \<and> areaDataIn (usedRangeValues (cells shS)) n (toUpperCase (trim (asString country)))
            AREA_COLUMN_stateProvince = []
    \<longrightarrow> fst (handleStateProvinceFunction e apiName country address w)
           = Inl (CustomFunctionsError notAvailable
                    (''No stateProvince data available for '' @ asString country))
        \<and> validations (snd (handleStateProvinceFunction e apiName country address w))
           = validations w)
   \<and> ((clientInstance w \<or> credentials e)
      \<and> validateApiName apiName = Inr n
      \<and> findSheet AREA_DATA_SHEET_NAME
            (sheets (snd (handleCountryFunction e apiName address w))) = Some shC
      \<and> alpha3CodesIn (usedRangeValues (cells shC)) n = []
    \<longrightarrow> fst (handleCountryFunction e apiName address w)
           = Inl (CustomFunctionsError notAvailable
                    (''Failed to set up country validation: No countries found for API: ''
                       @ apiName))
        \<and> validations (snd (handleCountryFunction e apiName address w)) = validations w)
   \<and> (\<not> (falsy type \<or> \<not> typeofString type \<or> trim (asString type) = [])
      \<and> (clientInstance w \<or> credentials e)
      \<and> validateApiName apiName = Inr n
      \<and> map_of API_CLASS_MAP n = Some c
      \<and> getUnits e c (trim (asString type)) = Resolved (Response (JArr []))
    \<longrightarrow> fst (handleUnitsFunction e apiName type address w)
           = Inl (CustomFunctionsError notAvailable
                    (''Failed to set up units validation: Failed to fetch units: ''
                       @ ''No units found for type: '' @ trim (asString type)))
        \<and> validations (snd (handleUnitsFunction e apiName type address w)) = validations w)
   \<and> (find (areaRowMatches (mapApiNameForAreaData n) a) (drop 1 values) = None
    \<longrightarrow> areaDataIn values n a col = [])
   \<and> (find (areaRowMatches (mapApiNameForAreaData n) a) (drop 1 values) = Some row
      \<and> (rowText row col = None \<or> rowText row col = Some [])
    \<longrightarrow> areaDataIn values n a col = [])"
  using handlePowerGridFunction_empty [of country w e apiName n address shP]
    handleStateProvinceFunction_empty [of country w e apiName n address shS]
    handleCountryFunction_empty [of w e apiName n address shC]
    handleUnitsFunction_empty [of type w e apiName n c address]
    areaDataIn_no_row [of n a "values" col]
    areaDataIn_empty_cell [of n a "values" row col]
  by blast


theorem empty_option_list_notAvailable_witness:
  "fst (handlePowerGridFunction unitsEnv ''location'' (JStr ''can'') ''Sheet1!B2'' cacheWorld)
     = Inl (CustomFunctionsError notAvailable ''No power grid data available for can'')
   \<and> validations (snd (handlePowerGridFunction unitsEnv ''location'' (JStr ''can'')
                          ''Sheet1!B2'' cacheWorld)) = []
   \<and> fst (handleStateProvinceFunction unitsEnv ''location'' (JStr ''FRA'') ''Sheet1!B2''
             cacheWorld)
     = Inl (CustomFunctionsError notAvailable ''No stateProvince data available for FRA'')
   \<and> fst (handleCountryFunction (offlineEnv 1700000000001) ''mobile'' ''Sheet1!B2''
             (metadataWorld [CStr ''METADATA'', CStr ''1700000000000'']))
     = Inl (CustomFunctionsError notAvailable
              ''Failed to set up country validation: No countries found for API: mobile'')
   \<and> fst (handleUnitsFunction
             (unitsEnv\<lparr>getUnits := (\<lambda>c u. Resolved (Response (JArr [])))\<rparr>)
             ''mobile'' (JStr ''kWh'') ''Sheet1!B2'' cacheWorld)
     = Inl (CustomFunctionsError notAvailable
              ''Failed to set up units validation: Failed to fetch units: No units found for type: kWh'')"
proof -
  let ?area = "the (findSheet AREA_DATA_SHEET_NAME (sheets cacheWorld))"
  let ?bare = "metadataWorld [CStr ''METADATA'', CStr ''1700000000000'']"
  let ?noUnits = "unitsEnv\<lparr>getUnits := (\<lambda>c u. Resolved (Response (JArr [])))\<rparr>"
  have can: "\<not> (falsy (JStr ''can'') \<or> \<not> typeofString (JStr ''can'')
                \<or> trim (asString (JStr ''can'')) = [])"
    and fra: "\<not> (falsy (JStr ''FRA'') \<or> \<not> typeofString (JStr ''FRA'')
                \<or> trim (asString (JStr ''FRA'')) = [])"
    and kwh: "\<not> (falsy (JStr ''kWh'') \<or> \<not> typeofString (JStr ''kWh'')
                \<or> trim (asString (JStr ''kWh'')) = [])"
    by code_simp+
  have session: "clientInstance cacheWorld \<or> credentials unitsEnv"
    and session2: "clientInstance ?bare \<or> credentials (offlineEnv 1700000000001)"
    and session3: "clientInstance cacheWorld \<or> credentials ?noUnits"
    by code_simp+
  have location: "validateApiName ''location'' = Inr ''location''"
    and mobile: "validateApiName ''mobile'' = Inr ''mobile''"
    by code_simp+
  have finalP: "findSheet AREA_DATA_SHEET_NAME
                  (sheets (snd (handlePowerGridFunction unitsEnv ''location'' (JStr ''can'')
                                  ''Sheet1!B2'' cacheWorld))) = Some ?area"
    by code_simp
  have emptyP: "areaDataIn (usedRangeValues (cells ?area)) ''location''
                  (toUpperCase (trim (asString (JStr ''can'')))) AREA_COLUMN_powerGrid = []"
    by code_simp
  have finalS: "findSheet AREA_DATA_SHEET_NAME
                  (sheets (snd (handleStateProvinceFunction unitsEnv ''location'' (JStr ''FRA'')
                                  ''Sheet1!B2'' cacheWorld))) = Some ?area"
    by code_simp
  have emptyS: "areaDataIn (usedRangeValues (cells ?area)) ''location''
                  (toUpperCase (trim (asString (JStr ''FRA'')))) AREA_COLUMN_stateProvince = []"
    by code_simp
  have finalC: "findSheet AREA_DATA_SHEET_NAME
                  (sheets (snd (handleCountryFunction (offlineEnv 1700000000001) ''mobile''
                                  ''Sheet1!B2'' ?bare)))
                  = Some (the (findSheet AREA_DATA_SHEET_NAME (sheets ?bare)))"
    by code_simp
  have emptyC: "alpha3CodesIn
                  (usedRangeValues (cells (the (findSheet AREA_DATA_SHEET_NAME (sheets ?bare)))))
                  ''mobile'' = []"
    by code_simp
  have cls: "map_of API_CLASS_MAP ''mobile'' = Some Mobile"
    and none: "getUnits ?noUnits Mobile (trim (asString (JStr ''kWh'')))
                 = Resolved (Response (JArr []))"
    by code_simp+
  have texts: "asString (JStr ''can'') = ''can''" "asString (JStr ''FRA'') = ''FRA''"
    "trim (asString (JStr ''kWh'')) = ''kWh''" "validations cacheWorld = []"
    by code_simp+
  from empty_option_list_notAvailable [where country = "JStr ''can''" and w = cacheWorld
      and e = unitsEnv and apiName = "''location''" and n = "''location''"
      and address = "''Sheet1!B2''" and shP = ?area]
    can session location finalP emptyP texts
  have p: "fst (handlePowerGridFunction unitsEnv ''location'' (JStr ''can'') ''Sheet1!B2''
                  cacheWorld)
             = Inl (CustomFunctionsError notAvailable ''No power grid data available for can'')
           \<and> validations (snd (handlePowerGridFunction unitsEnv ''location'' (JStr ''can'')
                          ''Sheet1!B2'' cacheWorld)) = []"
    by simp
  from empty_option_list_notAvailable [where country = "JStr ''FRA''" and w = cacheWorld
      and e = unitsEnv and apiName = "''location''" and n = "''location''"
      and address = "''Sheet1!B2''" and shS = ?area]
    fra session location finalS emptyS texts
  have s: "fst (handleStateProvinceFunction unitsEnv ''location'' (JStr ''FRA'') ''Sheet1!B2''
             cacheWorld)
     = Inl (CustomFunctionsError notAvailable ''No stateProvince data available for FRA'')"
    by simp
  from empty_option_list_notAvailable [where w = ?bare and e = "offlineEnv 1700000000001"
      and apiName = "''mobile''" and n = "''mobile''" and address = "''Sheet1!B2''"
      and shC = "the (findSheet AREA_DATA_SHEET_NAME (sheets ?bare))"]
    session2 mobile finalC emptyC
  have c: "fst (handleCountryFunction (offlineEnv 1700000000001) ''mobile'' ''Sheet1!B2'' ?bare)
     = Inl (CustomFunctionsError notAvailable
              ''Failed to set up country validation: No countries found for API: mobile'')"
    by simp
  from empty_option_list_notAvailable [where type = "JStr ''kWh''" and w = cacheWorld
      and e = ?noUnits and apiName = "''mobile''" and n = "''mobile''"
      and address = "''Sheet1!B2''" and c = Mobile]
    kwh session3 mobile cls none texts
  have u: "fst (handleUnitsFunction ?noUnits ''mobile'' (JStr ''kWh'') ''Sheet1!B2'' cacheWorld)
     = Inl (CustomFunctionsError notAvailable
              ''Failed to set up units validation: Failed to fetch units: No units found for type: kWh'')"
    by simp
  from p s c u show ?thesis by blast
qed

text \<open>
  C9. Every lookup whose derived option list is empty is to fail with a \<open>notAvailable\<close>
  error and to set no validation rule. The TYPES lookup does not: \<open>applyDataValidation\<close>
  tests the row count of the column's used range (\<open>rowCount <= 1\<close>) and never the list
  it derives, and its data range starts at the sheet's second row, which since the
  metadata row was put above it is the header. When the service has no type for Mobile
  (or for Location) the column still holds the timestamp (or the marker) and the header,
  so \<open>rowCount\<close> is 2, the range is the header cell alone, and TYPES returns the empty
  string with a rule whose only option is the header \<open>Mobile\<close> (\<open>Location\<close>). For a
  category stored from the third column on, whose column starts at the header, the same
  input gives the error the code intends, \<open>No types found for API\<close>, which is also what
  the test \<open>should handle empty types data\<close> of the repository expects. The third
  conjunct reads the Mobile column of the dataset the call leaves, below the header: no
  type is stored there.
\<close>

theorem handleTypesFunction_empty_column:
  "fst (handleTypesFunction (emptyTypesEnv Mobile) ''mobile'' ''Sheet1!B2'' signedInWorld)
     = Inr []
   \<and> validations (snd (handleTypesFunction (emptyTypesEnv Mobile) ''mobile'' ''Sheet1!B2''
                          signedInWorld))
     = [ListValidation ''Sheet1'' ''B2'' ''Mobile'' ''Invalid Type''
          ''Please select a valid type from the dropdown list'']
   \<and> map_option (\<lambda>sh. map (\<lambda>row. row ! 1) (drop 2 (cells sh)))
         (findSheet API_TYPES_SHEET_NAME
            (sheets (snd (handleTypesFunction (emptyTypesEnv Mobile) ''mobile'' ''Sheet1!B2''
                            signedInWorld))))
     = Some [CStr [], CStr []]
   \<and> fst (handleTypesFunction (emptyTypesEnv Location) ''location'' ''Sheet1!B2''
             signedInWorld)
     = Inr []
   \<and> validations (snd (handleTypesFunction (emptyTypesEnv Location) ''location''
                          ''Sheet1!B2'' signedInWorld))
     = [ListValidation ''Sheet1'' ''B2'' ''Location'' ''Invalid Type''
          ''Please select a valid type from the dropdown list'']
   \<and> fst (handleTypesFunction (emptyTypesEnv Fugitive) ''fugitive'' ''Sheet1!B2''
             signedInWorld)
     = Inl (CustomFunctionsError notAvailable
              ''Failed to set up validation: No types found for API: fugitive'')
   \<and> validations (snd (handleTypesFunction (emptyTypesEnv Fugitive) ''fugitive''
                          ''Sheet1!B2'' signedInWorld))
     = []"
  by code_simp

subsection \<open>The factor alias\<close>

lemma sameOutcomeD:
  assumes "sameOutcome m1 m2" and "m1 w = (r1, v1)" and "m2 w = (r2, v2)"
  shows "v1 = v2" and "(r1 = Inr x) = (r2 = Inr x)"
proof -
  from assms(1) have "snd (m1 w) = snd (m2 w)"
    and "(fst (m1 w) = Inr x) = (fst (m2 w) = Inr x)"
    by (simp_all add: sameOutcome_def)
  with assms(2,3) show "v1 = v2" and "(r1 = Inr x) = (r2 = Inr x)"
    by simp_all
qed

lemma sameOutcome_refl: "sameOutcome m m"
  by (simp add: sameOutcome_def)

lemma sameOutcome_bindA:
  assumes "\<And>x. sameOutcome (f x) (g x)"
  shows "sameOutcome (bindA m f) (bindA m g)"
  unfolding sameOutcome_def
proof (intro allI)
  fix w
  obtain r w1 where mw: "m w = (r, w1)" by (cases "m w")
  show "snd (bindA m f w) = snd (bindA m g w)
        \<and> (\<forall>x. (fst (bindA m f w) = Inr x) = (fst (bindA m g w) = Inr x))"
  proof (cases r)
    case (Inl err)
    with mw show ?thesis by (simp add: bindA_def)
  next
    case (Inr y)
    from assms [of y] have "snd (f y w1) = snd (g y w1)
        \<and> (\<forall>x. (fst (f y w1) = Inr x) = (fst (g y w1) = Inr x))"
      by (simp add: sameOutcome_def)
    with Inr mw show ?thesis by (simp add: bindA_def)
  qed
qed

lemma sameOutcome_catchA:
  fixes m1 m2 :: "'a action"
  assumes "sameOutcome m1 m2"
  shows "sameOutcome (catchA m1 (\<lambda>err. handleCustomFunctionError err d))
                     (catchA m2 (\<lambda>err. handleCustomFunctionError err d))"
  unfolding sameOutcome_def
proof (intro allI)
  fix w
  obtain r1 v1 where m1: "m1 w = (r1, v1)" by (cases "m1 w")
  obtain r2 v2 where m2: "m2 w = (r2, v2)" by (cases "m2 w")
  from sameOutcomeD [OF assms m1 m2] have v: "v1 = v2" and r: "\<And>x. (r1 = Inr x) = (r2 = Inr x)"
    by simp_all
  have fails: "\<And>err v. \<exists>err'. (handleCustomFunctionError err d :: 'a action) v = (Inl err', v)"
    by (simp add: handleCustomFunctionError_def throwA_def split: error.splits)
  show "snd (catchA m1 (\<lambda>err. handleCustomFunctionError err d) w)
          = snd (catchA m2 (\<lambda>err. handleCustomFunctionError err d) w)
        \<and> (\<forall>x. (fst (catchA m1 (\<lambda>err. handleCustomFunctionError err d) w) = Inr x)
               = (fst (catchA m2 (\<lambda>err. handleCustomFunctionError err d) w) = Inr x))"
  proof (cases r1)
    case (Inr y)
    with r [of y] have "r2 = Inr y" by simp
    with Inr m1 m2 v show ?thesis by (simp add: catchA_def)
  next
    case l1: (Inl err1)
    with r obtain err2 where l2: "r2 = Inl err2" by (cases r2) auto
    from fails [of err1 v1] obtain e1
      where h1: "(handleCustomFunctionError err1 d :: 'a action) v1 = (Inl e1, v1)"
      by blast
    from fails [of err2 v2] obtain e2
      where h2: "(handleCustomFunctionError err2 d :: 'a action) v2 = (Inl e2, v2)"
      by blast
    from h1 h2 l1 l2 m1 m2 v show ?thesis
      by (simp add: catchA_def)
  qed
qed

lemma bindA_liftR: "bindA (liftR (Inr n)) f = f n"
  by (rule ext) (simp add: bindA_def liftR_def)

lemma valid_factor: "validateApiName ''factor'' = Inr ''factor''"
  by code_simp

lemma valid_calculation: "validateApiName ''calculation'' = Inr ''calculation''"
  by code_simp

lemma area_group_factor:
  "mapApiNameForAreaData ''factor'' = ''calculation''"
  "mapApiNameForAreaData ''calculation'' = ''calculation''"
  by code_simp+

lemma column_factor:
  "map_of API_COLUMN_MAP ''factor'' = Some 4"
  "map_of API_COLUMN_MAP ''calculation'' = Some 4"
  by (simp_all add: API_COLUMN_MAP_def)

lemma areaDataIn_factor:
  "areaDataIn values ''factor'' a col = areaDataIn values ''calculation'' a col"
  by (simp add: areaDataIn_def area_group_factor)

lemma alpha3CodesIn_factor:
  "alpha3CodesIn values ''factor'' = alpha3CodesIn values ''calculation''"
  by (simp add: alpha3CodesIn_def area_group_factor)

lemma getAreaDataForCountry_factor:
  "getAreaDataForCountry ''factor'' a col = getAreaDataForCountry ''calculation'' a col"
  by (rule ext) (simp add: getAreaDataForCountry_def areaDataIn_factor split: option.splits)

lemma getAlpha3CodesForApi_factor:
  "getAlpha3CodesForApi ''factor'' = getAlpha3CodesForApi ''calculation''"
  by (rule ext) (simp add: getAlpha3CodesForApi_def alpha3CodesIn_factor split: option.splits)

lemma sameOutcome_throwA: "sameOutcome (throwA e1) (throwA e2)"
  by (simp add: sameOutcome_def throwA_def)

lemma sameOutcome_applyDataValidation:
  "sameOutcome (applyDataValidation a ''factor'') (applyDataValidation a ''calculation'')"
  by (simp add: sameOutcome_def applyDataValidation_def column_factor Let_def
        split: option.splits)

lemma handleStateProvinceFunction_factor:
  "handleStateProvinceFunction e ''factor'' country address
     = handleStateProvinceFunction e ''calculation'' country address"
  by (simp add: handleStateProvinceFunction_def valid_factor valid_calculation bindA_liftR
        getAreaDataForCountry_factor)

lemma handlePowerGridFunction_factor:
  "handlePowerGridFunction e ''factor'' country address
     = handlePowerGridFunction e ''calculation'' country address"
  by (simp add: handlePowerGridFunction_def valid_factor valid_calculation bindA_liftR
        getAreaDataForCountry_factor)

lemma handleCountryFunction_factor:
  "sameOutcome (handleCountryFunction e ''factor'' address)
               (handleCountryFunction e ''calculation'' address)"
  unfolding handleCountryFunction_def valid_factor valid_calculation bindA_liftR
    getAlpha3CodesForApi_factor
  by (intro sameOutcome_catchA sameOutcome_bindA)
     (simp add: sameOutcome_throwA sameOutcome_refl)

lemma sameOutcome_bindA_left:
  fixes m1 m2 :: "'a action"
  assumes "sameOutcome m1 m2"
  shows "sameOutcome (bindA m1 f) (bindA m2 f)"
  unfolding sameOutcome_def
proof (intro allI)
  fix w
  obtain r1 v1 where m1: "m1 w = (r1, v1)" by (cases "m1 w")
  obtain r2 v2 where m2: "m2 w = (r2, v2)" by (cases "m2 w")
  from sameOutcomeD [OF assms m1 m2] have v: "v1 = v2" and r: "\<And>x. (r1 = Inr x) = (r2 = Inr x)"
    by simp_all
  show "snd (bindA m1 f w) = snd (bindA m2 f w)
        \<and> (\<forall>x. (fst (bindA m1 f w) = Inr x) = (fst (bindA m2 f w) = Inr x))"
  proof (cases r1)
    case (Inr y)
    with r [of y] have "r2 = Inr y" by simp
    with Inr m1 m2 v show ?thesis by (simp add: bindA_def)
  next
    case l1: (Inl err1)
    with r obtain err2 where l2: "r2 = Inl err2" by (cases r2) auto
    from l1 l2 m1 m2 v show ?thesis by (simp add: bindA_def)
  qed
qed

lemma handleTypesFunction_factor:
  "sameOutcome (handleTypesFunction e ''factor'' address)
               (handleTypesFunction e ''calculation'' address)"
  unfolding handleTypesFunction_def valid_factor valid_calculation bindA_liftR
  by (intro sameOutcome_catchA sameOutcome_bindA sameOutcome_bindA_left
        sameOutcome_applyDataValidation)

text \<open>
  C7. \<open>factor\<close> is an alias of \<open>calculation\<close> for the cached lookups: both names have
  types column 4 and area group \<open>calculation\<close>, so on every workbook the area reads
  return the same lists, the state/province and power-grid handlers behave identically,
  and the country and types handlers leave the same state and succeed on the same
  inputs (their error texts alone may quote the name that was passed).
\<close>

theorem factor_aliases_calculation:
  "map_of API_COLUMN_MAP ''factor'' = map_of API_COLUMN_MAP ''calculation''
   \<and> map_of API_COLUMN_MAP ''factor'' = Some 4
   \<and> mapApiNameForAreaData ''factor'' = mapApiNameForAreaData ''calculation''
   \<and> mapApiNameForAreaData ''factor'' = ''calculation''
   \<and> alpha3CodesIn values ''factor'' = alpha3CodesIn values ''calculation''
   \<and> areaDataIn values ''factor'' a col = areaDataIn values ''calculation'' a col
   \<and> handleStateProvinceFunction e ''factor'' country address w
       = handleStateProvinceFunction e ''calculation'' country address w
   \<and> handlePowerGridFunction e ''factor'' country address w
       = handlePowerGridFunction e ''calculation'' country address w
   \<and> snd (handleCountryFunction e ''factor'' address w)
       = snd (handleCountryFunction e ''calculation'' address w)
   \<and> (fst (handleCountryFunction e ''factor'' address w) = Inr x)
       = (fst (handleCountryFunction e ''calculation'' address w) = Inr x)
   \<and> snd (handleTypesFunction e ''factor'' address w)
       = snd (handleTypesFunction e ''calculation'' address w)
   \<and> (fst (handleTypesFunction e ''factor'' address w) = Inr x)
       = (fst (handleTypesFunction e ''calculation'' address w) = Inr x)"
  using handleCountryFunction_factor [of e address] handleTypesFunction_factor [of e address]
  by (simp add: column_factor area_group_factor alpha3CodesIn_factor areaDataIn_factor
        handleStateProvinceFunction_factor handlePowerGridFunction_factor sameOutcome_def)

theorem factor_aliases_calculation_witness:
  "handleStateProvinceFunction unitsEnv ''factor'' (JStr ''usa'') ''Sheet1!B2'' cacheWorld
     = handleStateProvinceFunction unitsEnv ''calculation'' (JStr ''usa'') ''Sheet1!B2''
         cacheWorld
   \<and> validations (snd (handleStateProvinceFunction unitsEnv ''factor'' (JStr ''usa'')
                          ''Sheet1!B2'' cacheWorld))
     = [ListValidation ''Sheet1'' ''B2'' ''California,Texas,New York''
          ''Invalid State/Province''
          ''Please select a valid state/province from the dropdown list'']
   \<and> validations (snd (handleTypesFunction unitsEnv ''factor'' ''Sheet1!B2'' cacheWorld))
     = validations (snd (handleTypesFunction unitsEnv ''calculation'' ''Sheet1!B2''
                           cacheWorld))"
proof -
  have calc: "validations (snd (handleStateProvinceFunction unitsEnv ''calculation''
                                  (JStr ''usa'') ''Sheet1!B2'' cacheWorld))
     = [ListValidation ''Sheet1'' ''B2'' ''California,Texas,New York''
          ''Invalid State/Province''
          ''Please select a valid state/province from the dropdown list'']"
    by code_simp
  from factor_aliases_calculation [of _ _ _ unitsEnv "JStr ''usa''" "''Sheet1!B2''" cacheWorld]
    calc
  show ?thesis by simp
qed

subsection \<open>The country lookup\<close>

lemma alpha3Loop_filter:
  "alpha3Loop q rows acc =
     acc @ map (\<lambda>row. the (rowText row AREA_COLUMN_alpha3)) (filter (alpha3RowMatches q) rows)"
  by (induction rows arbitrary: acc) (simp_all add: Let_def alpha3RowMatches_def)

lemma alpha3CodesIn_filter:
  "alpha3CodesIn values apiName =
     map (\<lambda>row. the (rowText row AREA_COLUMN_alpha3))
       (filter (alpha3RowMatches (mapApiNameForAreaData apiName)) (drop 1 values))"
  by (simp add: alpha3CodesIn_def alpha3Loop_filter)

text \<open>
  What the country lookup returns on every grid: in row order, the text of the alpha-3
  cell of each row after the first whose lower-cased group cell is the category's
  representative group and whose alpha-3 cell is not empty; one entry per such row.
\<close>

theorem alpha3CodesIn_rows:
  "alpha3CodesIn values apiName =
     map (\<lambda>row. the (rowText row AREA_COLUMN_alpha3))
       (filter (alpha3RowMatches (mapApiNameForAreaData apiName)) (drop 1 values))"
  by (rule alpha3CodesIn_filter)

lemma alpha3CodesIn_set:
  "set (alpha3CodesIn values apiName) =
     {a. a \<noteq> [] \<and> (\<exists>row \<in> set (drop 1 values).
            map_option toLowerCase (rowText row AREA_COLUMN_apiName)
              = Some (mapApiNameForAreaData apiName)
            \<and> rowText row AREA_COLUMN_alpha3 = Some a)}"
  by (auto simp add: alpha3CodesIn_filter alpha3RowMatches_def) force

text \<open>
  C3. The country lookup is to return the distinct alpha-3 codes of the rows of the
  category's group. \<open>getAlpha3CodesForApi\<close> pushes one code per matching row and
  removes no repetition: with two rows \<open>(mobile, USA)\<close> the list for a category of the
  mobile group is \<open>[USA, USA]\<close>, and the rule set on the cell offers \<open>USA,USA\<close>.
\<close>

theorem getAlpha3CodesForApi_keeps_duplicates:
  "fst (getAlpha3CodesForApi ''fugitive'' duplicateCountryWorld) = Inr [''USA'', ''USA'']
   \<and> validations (snd (handleCountryFunction (offlineEnv 1700000000001) ''Fugitive''
                          ''Sheet1!B2'' duplicateCountryWorld))
     = [ListValidation ''Sheet1'' ''B2'' ''USA,USA'' ''Invalid Country''
          ''Please select a valid country code from the dropdown list'']"
  by code_simp

subsection \<open>A failing category during population\<close>

text \<open>
  C5. A category whose fetch fails or whose response is malformed is to be recorded as
  empty without the routine raising. The area routine does so, and the types routine
  does so for a rejected request and a missing \<open>types\<close> value; but a \<open>types\<close> value that
  is truthy and not an array (here the string \<open>abc\<close> for Mobile, the five others
  well-formed) passes \<open>response?.types || []\<close> unchanged, and \<open>types.forEach\<close> throws
  in \<open>writeApiTypesToSheet\<close>: the routine raises, no sheet is written, and the TYPES
  lookup fails for every category.
\<close>

theorem loadAndPopulateApiTypes_malformed_types:
  "fst (loadAndPopulateApiTypes malformedTypesEnv signedInWorld)
     = Inl (JsError ''types.forEach is not a function'')
   \<and> findSheet API_TYPES_SHEET_NAME
         (sheets (snd (loadAndPopulateApiTypes malformedTypesEnv signedInWorld))) = None
   \<and> fst (handleTypesFunction malformedTypesEnv ''location'' ''Sheet1!B2'' signedInWorld)
     = Inl (CustomFunctionsError notAvailable
              ''Failed to set up validation: types.forEach is not a function'')"
  by code_simp

lemma loadAndPopulateApiTypes_one_rejected:
  "fst (loadAndPopulateApiTypes rejectedTypesEnv signedInWorld) = Inr ()
   \<and> map cells (sheets (snd (loadAndPopulateApiTypes rejectedTypesEnv signedInWorld)))
     = [[],
        [[CStr ''METADATA'', CStr ''1700000000000''],
         [CStr ''Location'', CStr ''Mobile'', CStr ''Fugitive'', CStr ''Stationary'',
          CStr ''Calculation'', CStr ''TransportationAndDistribution''],
         [CStr ''t1'', CStr [], CStr ''t1'', CStr ''t1'', CStr ''t1'', CStr ''t1''],
         [CStr ''t2'', CStr [], CStr ''t2'', CStr ''t2'', CStr ''t2'', CStr ''t2'']]]"
  by code_simp

lemma fetchAreaOf_malformed:
  assumes "malformedArea (getArea e c)"
  shows "fetchAreaOf e (n, c) = (n, [])"
proof (cases "getArea e c")
  case (Rejected m)
  then show ?thesis by (simp add: fetchAreaOf_def)
next
  case (Resolved raw)
  from assms Resolved show ?thesis
    by (cases raw)
       (auto simp add: fetchAreaOf_def
          split: option.splits response.splits locationsField.splits)
qed

lemma fetchTypesOf_failed:
  assumes "getTypes e c = Rejected m \<or> getTypes e c = Resolved Nullish
     \<or> (\<exists>t. getTypes e c = Resolved (Response t) \<and> falsy t)"
  shows "fetchTypesOf e (n, c) = (n, JArr [])"
  using assms by (auto simp add: fetchTypesOf_def)

text \<open>
  The part of C5 the code does implement: the area population always returns; a group
  whose request is rejected, whose string does not parse, or whose \<open>locations\<close> is
  missing or not an array is recorded with no locations; a category whose \<open>getTypes\<close>
  is rejected or has no \<open>types\<close> value is recorded with no types.
\<close>

theorem failed_fetch_recorded_empty:
  "(\<exists>w1. loadAndPopulateAreaData e w = (Inr (), w1))
   \<and> (malformedArea (getArea e c) \<longrightarrow> fetchAreaOf e (n, c) = (n, []))
   \<and> (getTypes e c = Rejected m \<or> getTypes e c = Resolved Nullish
        \<or> (\<exists>t. getTypes e c = Resolved (Response t) \<and> falsy t)
       \<longrightarrow> fetchTypesOf e (n, c) = (n, JArr []))"
  using loadAndPopulateAreaData_effect [of e w] fetchAreaOf_malformed [of e c n]
    fetchTypesOf_failed [of e c m n]
  by blast

theorem failed_fetch_recorded_empty_witness:
  "fetchAreaOf (offlineEnv 0) (''calculation'', Calculation) = (''calculation'', [])
   \<and> fetchTypesOf rejectedTypesEnv (''Mobile'', Mobile) = (''Mobile'', JArr [])
   \<and> fst (loadAndPopulateApiTypes rejectedTypesEnv signedInWorld) = Inr ()
   \<and> map cells (sheets (snd (loadAndPopulateApiTypes rejectedTypesEnv signedInWorld)))
     = [[],
        [[CStr ''METADATA'', CStr ''1700000000000''],
         [CStr ''Location'', CStr ''Mobile'', CStr ''Fugitive'', CStr ''Stationary'',
          CStr ''Calculation'', CStr ''TransportationAndDistribution''],
         [CStr ''t1'', CStr [], CStr ''t1'', CStr ''t1'', CStr ''t1'', CStr ''t1''],
         [CStr ''t2'', CStr [], CStr ''t2'', CStr ''t2'', CStr ''t2'', CStr ''t2'']]]"
proof -
  have bad: "malformedArea (getArea (offlineEnv 0) Calculation)"
    and rej: "getTypes rejectedTypesEnv Mobile = Rejected (JsError ''API Error'')"
    by code_simp+
  from failed_fetch_recorded_empty [where e = "offlineEnv 0" and c = Calculation
      and n = "''calculation''"] bad
  have a: "fetchAreaOf (offlineEnv 0) (''calculation'', Calculation) = (''calculation'', [])"
    by blast
  from failed_fetch_recorded_empty [where e = rejectedTypesEnv and c = Mobile
      and m = "JsError ''API Error''" and n = "''Mobile''"] rej
  have b: "fetchTypesOf rejectedTypesEnv (''Mobile'', Mobile) = (''Mobile'', JArr [])"
    by blast
  from a b loadAndPopulateApiTypes_one_rejected show ?thesis by blast
qed

end
